theory Spec2Isabelle
  imports Complex_Main
begin

section \<open>Python strings\<close>

text \<open>
  A Python \<open>str\<close> is modelled as a \<open>string\<close> whose characters are the code points
  below 256. The functions below are the \<open>str\<close> methods that \<open>main.py\<close> calls, with
  Python's behaviour on that range: \<open>isspace\<close> is true of the ASCII white space, of the
  separators \<open>0x1C\<close> to \<open>0x1F\<close>, of \<open>0x85\<close> and of \<open>0xA0\<close>; \<open>lower\<close> maps the
  ASCII capitals and the Latin-1 capitals (\<open>0xC0\<close> to \<open>0xDE\<close> without \<open>0xD7\<close>) to the
  letter 32 places further.
\<close>

definition whitespace :: "char list" where
  "whitespace = [CHR 0x09, CHR 0x0A, CHR 0x0B, CHR 0x0C, CHR 0x0D, CHR 0x1C, CHR 0x1D,
     CHR 0x1E, CHR 0x1F, CHR 0x20, CHR 0x85, CHR 0xA0]"

definition isspace :: "char \<Rightarrow> bool" where
  "isspace c \<longleftrightarrow> c \<in> set whitespace"

definition strip :: "string \<Rightarrow> string" where
  "strip s = rev (dropWhile isspace (rev (dropWhile isspace s)))"

definition uppercase :: "char list" where
  "uppercase = ''ABCDEFGHIJKLMNOPQRSTUVWXYZ'' @
     [CHR 0xC0, CHR 0xC1, CHR 0xC2, CHR 0xC3, CHR 0xC4, CHR 0xC5, CHR 0xC6, CHR 0xC7,
      CHR 0xC8, CHR 0xC9, CHR 0xCA, CHR 0xCB, CHR 0xCC, CHR 0xCD, CHR 0xCE, CHR 0xCF,
      CHR 0xD0, CHR 0xD1, CHR 0xD2, CHR 0xD3, CHR 0xD4, CHR 0xD5, CHR 0xD6,
      CHR 0xD8, CHR 0xD9, CHR 0xDA, CHR 0xDB, CHR 0xDC, CHR 0xDD, CHR 0xDE]"

definition lowercase :: "char list" where
  "lowercase = ''abcdefghijklmnopqrstuvwxyz'' @
     [CHR 0xE0, CHR 0xE1, CHR 0xE2, CHR 0xE3, CHR 0xE4, CHR 0xE5, CHR 0xE6, CHR 0xE7,
      CHR 0xE8, CHR 0xE9, CHR 0xEA, CHR 0xEB, CHR 0xEC, CHR 0xED, CHR 0xEE, CHR 0xEF,
      CHR 0xF0, CHR 0xF1, CHR 0xF2, CHR 0xF3, CHR 0xF4, CHR 0xF5, CHR 0xF6,
      CHR 0xF8, CHR 0xF9, CHR 0xFA, CHR 0xFB, CHR 0xFC, CHR 0xFD, CHR 0xFE]"

definition lower_char :: "char \<Rightarrow> char" where
  "lower_char c = (case map_of (zip uppercase lowercase) c of Some d \<Rightarrow> d | None \<Rightarrow> c)"

definition lower :: "string \<Rightarrow> string" where
  "lower s = map lower_char s"

text \<open>\<open>s.split(sep)\<close> for a separator of one character: never the empty list.\<close>

fun split_on :: "char \<Rightarrow> string \<Rightarrow> string list" where
  "split_on sep [] = [[]]"
| "split_on sep (c # cs) =
     (let r = split_on sep cs in if c = sep then [] # r else (c # hd r) # tl r)"

text \<open>\<open>s.split(sep, 1)\<close>: at most one split, at the first separator.\<close>

definition split_once :: "char \<Rightarrow> string \<Rightarrow> string list" where
  "split_once sep s =
     (if sep \<in> set s then [takeWhile (\<lambda>c. c \<noteq> sep) s, tl (dropWhile (\<lambda>c. c \<noteq> sep) s)]
      else [s])"

fun startswith :: "string \<Rightarrow> string \<Rightarrow> bool" where
  "startswith s [] = True"
| "startswith [] (p # ps) = False"
| "startswith (c # cs) (p # ps) = (c = p \<and> startswith cs ps)"

definition endswith :: "string \<Rightarrow> string \<Rightarrow> bool" where
  "endswith s suf = startswith (rev s) (rev suf)"

text \<open>\<open>s.find(sub)\<close>: the lowest index where \<open>sub\<close> starts, or \<open>-1\<close>.\<close>

fun find_from :: "nat \<Rightarrow> string \<Rightarrow> string \<Rightarrow> int" where
  "find_from i [] sub = (if sub = [] then int i else - 1)"
| "find_from i (c # cs) sub =
     (if startswith (c # cs) sub then int i else find_from (Suc i) cs sub)"

definition find :: "string \<Rightarrow> string \<Rightarrow> int" where
  "find s sub = find_from 0 s sub"

text \<open>\<open>sub in s\<close> on strings.\<close>

definition contains :: "string \<Rightarrow> string \<Rightarrow> bool" where
  "contains s sub \<longleftrightarrow> find s sub \<noteq> - 1"

section \<open>Data model\<close>

record Character =
  name :: string
  description :: string
  voice_id :: string
  speed :: rat
  volume :: rat
  pitch :: rat
  emotion :: string

record StorySegment =
  character :: "Character option"
  seg_text :: string
  audio_file :: "string option"

text \<open>
  The exceptions the orchestrator can raise. \<open>ConnectionError\<close>, \<open>HTTPError\<close> and
  \<open>JSONDecodeError\<close> are the subclasses of \<open>requests.exceptions.RequestException\<close>
  raised by \<open>requests.post\<close>, \<open>raise_for_status\<close> and \<open>response.json\<close>;
  \<open>PyException\<close> is a bare \<open>Exception\<close> with its message.
\<close>

datatype py_error =
    ConnectionError
  | HTTPError nat
  | JSONDecodeError
  | KeyError string
  | AttributeError
  | TypeError
  | ValueError
  | ZeroDivisionError
  | OSError
  | PyException string

fun is_request_exception :: "py_error \<Rightarrow> bool" where
  "is_request_exception ConnectionError = True"
| "is_request_exception (HTTPError code) = True"
| "is_request_exception JSONDecodeError = True"
| "is_request_exception e = False"

text \<open>
  What \<open>requests.post\<close> gives: the call raises, or returns a response with a status
  code and a body, which \<open>response.json()\<close> parses or not.
\<close>

datatype 'a http_reply = Refused | Response nat "'a option"

text \<open>
  The JSON of a chat completion, as far as the code reads it: \<open>choices\<close> (a list of
  objects with a \<open>message\<close> object and a \<open>finish_reason\<close>) and \<open>usage\<close> (an object of
  integer counts). A key that may be absent is an \<open>option\<close>; the \<open>message\<close> and
  \<open>usage\<close> objects are dictionaries.
\<close>

record choice =
  message :: "(string \<rightharpoonup> string) option"
  finish_reason :: "string option"

record chat_result =
  choices :: "choice list option"
  usage :: "(string \<rightharpoonup> int) option"

record tts_result =
  data :: "(string \<rightharpoonup> string) option"

text \<open>
  A value that \<open>json.loads\<close> returns. An object is the list of its keys and values,
  each key once, as in a \<open>dict\<close>.
\<close>

datatype json =
    JNull
  | JBool bool
  | JNum rat
  | JStr string
  | JArr "json list"
  | JObj "(string \<times> json) list"

text \<open>
  The outside world: the reply of the chat service and of the synthesis service to the
  \<open>n\<close>-th request sent to each over the session; \<open>json.loads\<close> on the classifier's
  answer (\<open>None\<close> for a \<open>JSONDecodeError\<close>); Python's \<open>str\<close> of a value that is
  not a string, as an f-string renders it; and the file system: whether a path exists,
  whether \<open>os.makedirs\<close> succeeds on it, and whether a file can be opened and written.
\<close>

record world =
  chat_service :: "nat \<Rightarrow> chat_result http_reply"
  tts_service :: "nat \<Rightarrow> tts_result http_reply"
  json_loads :: "string \<Rightarrow> json option"
  py_str :: "json \<Rightarrow> string"
  path_exists :: "string \<Rightarrow> bool"
  can_makedirs :: "string \<Rightarrow> bool"
  can_write :: "string \<Rightarrow> bool"

text \<open>What a call does besides computing: the events of a run, in order.\<close>

datatype event = WaitIfNeeded string | Post string | Sleep rat

record usage_stats =
  total_calls :: int
  total_tokens :: int
  estimated_cost :: rat
  calls_by_model :: "string \<rightharpoonup> int"
  tokens_by_model :: "string \<rightharpoonup> int"

text \<open>
  The fields of \<open>MiniMaxStoryTeller\<close>. The three attributes that the code creates on
  first use (tested with \<open>hasattr\<close>) are \<open>None\<close> until then. \<open>chat_posts\<close>,
  \<open>tts_posts\<close> and \<open>trace\<close> are not fields of the class: they count the requests sent
  and record the events, so that theorems can speak about them.
\<close>

record teller =
  retry_delay :: rat
  characters :: "string \<rightharpoonup> Character"
  story_segments :: "StorySegment list"
  current_story :: string
  name_voice_cache :: "string \<rightharpoonup> Character"
  api_usage_stats :: "usage_stats option"
  name_analysis_cache :: "(string \<rightharpoonup> json) option"
  voice_selection_index :: "(string \<rightharpoonup> nat) option"
  chat_posts :: nat
  tts_posts :: nat
  trace :: "event list"

section \<open>Configuration\<close>

definition MODELS :: "string \<rightharpoonup> string" where
  "MODELS = map_of
     [(''story_generation'', ''MiniMax-M1''),
      (''name_analysis'', ''MiniMax-Text-01''),
      (''simple_tasks'', ''MiniMax-Text-01'')]"

text \<open>The prices of \<open>MODEL_COSTS\<close>; the \<open>description\<close> entries are left out.\<close>

definition MODEL_COSTS :: "string \<rightharpoonup> (string \<rightharpoonup> rat)" where
  "MODEL_COSTS = map_of
     [(''MiniMax-M1'', map_of [(''input'', 0.4), (''output'', 2.2)]),
      (''MiniMax-Text-01'', map_of [(''input'', 0.2), (''output'', 1.1)]),
      (''speech-02-hd'', map_of [(''per_character'', 0.0001)]),
      (''speech-02-turbo'', map_of [(''per_character'', 0.00006)])]"

section \<open>Usage ledger and the chat call\<close>

definition dict_get :: "('k \<rightharpoonup> 'v) \<Rightarrow> 'k \<Rightarrow> 'v \<Rightarrow> 'v" where
  "dict_get d k dflt = (case d k of Some v \<Rightarrow> v | None \<Rightarrow> dflt)"

definition empty_stats :: usage_stats where
  "empty_stats = \<lparr>total_calls = 0, total_tokens = 0, estimated_cost = 0,
     calls_by_model = Map.empty, tokens_by_model = Map.empty\<rparr>"

definition log_event :: "event \<Rightarrow> teller \<Rightarrow> teller" where
  "log_event e st = st\<lparr>trace := trace st @ [e]\<rparr>"

definition post_chat :: "world \<Rightarrow> teller \<Rightarrow> chat_result http_reply \<times> teller" where
  "post_chat w st =
     (chat_service w (chat_posts st),
      log_event (Post ''chat'') (st\<lparr>chat_posts := Suc (chat_posts st)\<rparr>))"

definition post_tts :: "world \<Rightarrow> teller \<Rightarrow> tts_result http_reply \<times> teller" where
  "post_tts w st =
     (tts_service w (tts_posts st),
      log_event (Post ''tts'') (st\<lparr>tts_posts := Suc (tts_posts st)\<rparr>))"

text \<open>\<open>response.raise_for_status()\<close> followed by \<open>response.json()\<close>.\<close>

definition checked_json :: "nat \<Rightarrow> 'a option \<Rightarrow> py_error + 'a" where
  "checked_json code body =
     (if 400 \<le> code \<and> code < 600 then Inl (HTTPError code)
      else case body of None \<Rightarrow> Inl JSONDecodeError | Some r \<Rightarrow> Inr r)"

text \<open>
  The request of \<open>make_api_call\<close> (lines 319 to 336) and of
  \<open>generate_audio_for_segment\<close> (lines 1010 to 1037), which are the same code up to the
  limiter and the address: acquire the limiter, post; on status 429 sleep
  \<open>retry_delay\<close>, acquire again and post again; then check the status of the response
  in hand and parse it.
\<close>

definition request_with_retry ::
  "string \<Rightarrow> (teller \<Rightarrow> 'a http_reply \<times> teller) \<Rightarrow> teller \<Rightarrow> (py_error + 'a) \<times> teller" where
  "request_with_retry limiter post st0 =
     (let st1 = log_event (WaitIfNeeded limiter) st0;
          (response, st2) = post st1
      in case response of
           Refused \<Rightarrow> (Inl ConnectionError, st2)
         | Response status_code body \<Rightarrow>
             if status_code = 429 then
               (let st3 = log_event (Sleep (retry_delay st2)) st2;
                    st4 = log_event (WaitIfNeeded limiter) st3;
                    (response2, st5) = post st4
                in case response2 of
                     Refused \<Rightarrow> (Inl ConnectionError, st5)
                   | Response status_code2 body2 \<Rightarrow> (checked_json status_code2 body2, st5))
             else (checked_json status_code body, st2))"

text \<open>The cost of one call, lines 354 to 372. Python's floats are taken as exact rationals.\<close>

definition call_cost :: "string \<Rightarrow> int \<Rightarrow> int \<Rightarrow> int \<Rightarrow> rat" where
  "call_cost model prompt_tokens completion_tokens n_total =
     (case MODEL_COSTS model of
        Some model_costs \<Rightarrow>
          (case (model_costs ''input'', model_costs ''output'') of
             (Some input_price, Some output_price) \<Rightarrow>
               (of_int prompt_tokens / 1000000) * input_price
                 + (of_int completion_tokens / 1000000) * output_price
           | _ \<Rightarrow>
               (case model_costs ''per_character'' of
                  Some per_character \<Rightarrow> of_int n_total * per_character
                | None \<Rightarrow> 0))
      | None \<Rightarrow> (of_int n_total / 1000000) * 0.5)"

text \<open>Tracking, lines 338 to 374.\<close>

definition record_usage :: "string \<Rightarrow> chat_result \<Rightarrow> usage_stats \<Rightarrow> usage_stats" where
  "record_usage model result s0 =
     (let s1 = s0\<lparr>total_calls := total_calls s0 + 1,
                   calls_by_model :=
                     (calls_by_model s0)(model \<mapsto> dict_get (calls_by_model s0) model 0 + 1)\<rparr>
      in case usage result of
           None \<Rightarrow> s1
         | Some u \<Rightarrow>
             (let prompt_tokens = dict_get u ''prompt_tokens'' 0;
                  completion_tokens = dict_get u ''completion_tokens'' 0;
                  n_total = dict_get u ''total_tokens'' 0
              in s1\<lparr>total_tokens := total_tokens s1 + n_total,
                     tokens_by_model :=
                       (tokens_by_model s1)(model \<mapsto> dict_get (tokens_by_model s1) model 0 + n_total),
                     estimated_cost :=
                       estimated_cost s1 + call_cost model prompt_tokens completion_tokens n_total\<rparr>))"

text \<open>
  \<open>make_api_call\<close>. The payload (messages, temperature, token limit) reaches the model
  only through the service's reply, so these arguments are not modelled.
\<close>

definition make_api_call :: "world \<Rightarrow> string \<Rightarrow> teller \<Rightarrow> (py_error + chat_result) \<times> teller" where
  "make_api_call w model_type st0 =
     (let model = dict_get MODELS model_type ''MiniMax-Text-01'';
          st1 = (case api_usage_stats st0 of
                   None \<Rightarrow> st0\<lparr>api_usage_stats := Some empty_stats\<rparr>
                 | Some s \<Rightarrow> st0)
      in case request_with_retry ''chat'' (post_chat w) st1 of
           (Inl e, st2) \<Rightarrow> (Inl e, st2)
         | (Inr result, st2) \<Rightarrow>
             (Inr result,
              st2\<lparr>api_usage_stats :=
                    map_option (record_usage model result) (api_usage_stats st2)\<rparr>))"

section \<open>Story generation\<close>

text \<open>
  Lines 572 to 603: with empty content, a story is taken from \<open>reasoning_content\<close> when
  that holds one of the markers.
\<close>

definition int_max :: "int list \<Rightarrow> int" where
  "int_max xs = foldr max (tl xs) (hd xs)"

definition story_from_reasoning :: "(string \<rightharpoonup> string) \<Rightarrow> string option" where
  "story_from_reasoning msg =
     (case msg ''reasoning_content'' of
        None \<Rightarrow> None
      | Some reasoning \<Rightarrow>
          if contains reasoning ''NARRATOR:'' \<or> contains reasoning ''HERO:'' then
            (let story_start = int_max [find reasoning ''NARRATOR:'', find reasoning ''HERO:'',
                   find reasoning ''VILLAIN:'', find reasoning ''FRIEND:'',
                   find reasoning ''WIZARD:'']
             in if story_start \<noteq> - 1 then Some (strip (drop (nat story_start) reasoning))
                else None)
          else None)"

definition token_limit_message :: string where
  "token_limit_message =
     ''Story generation hit token limit - try reducing story length or simplifying prompt''"

text \<open>Lines 540 to 625: the story in a response, or the exception raised.\<close>

definition story_of_result :: "chat_result \<Rightarrow> py_error + string" where
  "story_of_result result =
     (case choices result of
        None \<Rightarrow> Inl (PyException ''No story generated'')
      | Some [] \<Rightarrow> Inl (PyException ''No story generated'')
      | Some (choice # rest) \<Rightarrow>
          (case message choice of
             None \<Rightarrow> Inl (PyException ''No message in choice'')
           | Some msg \<Rightarrow>
               (let reason = (case finish_reason choice of None \<Rightarrow> [] | Some r \<Rightarrow> r)
                in case msg ''content'' of
                     None \<Rightarrow> Inl (PyException ''No content in message'')
                   | Some story \<Rightarrow>
                       if strip story \<noteq> [] then Inr story
                       else (case story_from_reasoning msg of
                               Some extracted_story \<Rightarrow> Inr extracted_story
                             | None \<Rightarrow>
                                 if reason = ''length'' then Inl (PyException token_limit_message)
                                 else Inl (PyException ''Story content is empty'')))))"

text \<open>The body of the \<open>try\<close> of \<open>generate_story\<close>.\<close>

definition generate_story_try :: "world \<Rightarrow> teller \<Rightarrow> (py_error + string) \<times> teller" where
  "generate_story_try w st0 =
     (case make_api_call w ''story_generation'' st0 of
        (Inl e, st1) \<Rightarrow> (Inl e, st1)
      | (Inr result, st1) \<Rightarrow>
          (case story_of_result result of
             Inl e \<Rightarrow> (Inl e, st1)
           | Inr story \<Rightarrow> (Inr story, st1\<lparr>current_story := story\<rparr>)))"

text \<open>
  \<open>generate_story\<close>: both handlers (\<open>RequestException\<close>, then \<open>Exception\<close>) print the
  exception and return \<open>None\<close>.
\<close>

definition generate_story :: "world \<Rightarrow> teller \<Rightarrow> string option \<times> teller" where
  "generate_story w st0 =
     (case generate_story_try w st0 of
        (Inl e, st1) \<Rightarrow> (if is_request_exception e then None else None, st1)
      | (Inr story, st1) \<Rightarrow> (Some story, st1))"

section \<open>Voice resolution\<close>

text \<open>\<open>fallback_name_analysis\<close>, lines 726 to 765: the dictionary it returns.\<close>

definition fallback_name_analysis :: "string \<Rightarrow> json" where
  "fallback_name_analysis char_name =
     (let char_name_lower = lower char_name;
          (gender, voice_type) =
            (if list_ex (contains char_name_lower) [''a'', ''e'', ''i'', ''o'', ''u''] then
               (if list_ex (endswith char_name_lower) [''a'', ''e'', ''i''] then
                  (''female'', ''feminine'')
                else if list_ex (endswith char_name_lower) [''o'', ''u'', ''n'', ''r''] then
                  (''male'', ''masculine'')
                else (''unknown'', ''neutral''))
             else (''unknown'', ''neutral''));
          (personality_trait, voice_type2) =
            (if list_ex (contains char_name_lower)
                  [''shadow'', ''dark'', ''grim'', ''vex'', ''mal''] then
               (''villainous'', voice_type)
             else if list_ex (contains char_name_lower)
                  [''light'', ''bright'', ''sun'', ''star''] then
               (''heroic'', voice_type)
             else if list_ex (contains char_name_lower)
                  [''wise'', ''sage'', ''elder'', ''merlin''] then
               (''wise'', ''wise'')
             else (''neutral'', voice_type))
      in JObj [(''gender'', JStr gender), (''age_group'', JStr ''adult''),
               (''personality_trait'', JStr personality_trait),
               (''voice_type'', JStr voice_type2), (''confidence'', JNum 0.3)])"

definition required_fields :: "string list" where
  "required_fields =
     [''gender'', ''age_group'', ''personality_trait'', ''voice_type'', ''confidence'']"

text \<open>
  Lines 692 to 704, the loop over the required fields on whatever \<open>json.loads\<close>
  returned. \<open>field not in analysis\<close> is a key test on a dictionary, a substring test on
  a string, an element test on a list, and a \<open>TypeError\<close> on a number, a boolean and
  \<open>None\<close>; the assignment \<open>analysis[field] = ...\<close> sets the default in a dictionary
  and is a \<open>TypeError\<close> on a string and on a list.
\<close>

fun fill_required :: "string list \<Rightarrow> json \<Rightarrow> py_error + json" where
  "fill_required [] a = Inr a"
| "fill_required (field # others) (JObj d) =
     (if field \<in> fst ` set d then fill_required others (JObj d)
      else fill_required others
             (JObj (d @ [(field, if field \<noteq> ''confidence'' then JStr ''unknown''
                                 else JNum 0.5)])))"
| "fill_required (field # others) (JStr s) =
     (if contains s field then fill_required others (JStr s) else Inl TypeError)"
| "fill_required (field # others) (JArr xs) =
     (if JStr field \<in> set xs then fill_required others (JArr xs) else Inl TypeError)"
| "fill_required (field # others) a = Inl TypeError"

definition analysis_cache :: "teller \<Rightarrow> (string \<rightharpoonup> json)" where
  "analysis_cache st = (case name_analysis_cache st of None \<Rightarrow> Map.empty | Some c \<Rightarrow> c)"

text \<open>
  \<open>analyze_character_name_with_ai\<close>, lines 638 to 724. Every exception inside the
  \<open>try\<close> (a failed request, a choice without message or content, an answer that
  \<open>json.loads\<close> rejects, a \<open>TypeError\<close> of the loop over the required fields) ends
  in the fallback, whose result is not cached. A value that passes the loop is cached and
  returned, whether it is a dictionary or not.
\<close>

definition analyze_character_name_with_ai :: "world \<Rightarrow> string \<Rightarrow> teller \<Rightarrow> json \<times> teller" where
  "analyze_character_name_with_ai w char_name st0 =
     (let st1 = st0\<lparr>name_analysis_cache := Some (analysis_cache st0)\<rparr>
      in case analysis_cache st1 (lower char_name) of
           Some cached \<Rightarrow> (cached, st1)
         | None \<Rightarrow>
             (case make_api_call w ''name_analysis'' st1 of
                (Inl e, st2) \<Rightarrow> (fallback_name_analysis char_name, st2)
              | (Inr result, st2) \<Rightarrow>
                  (case choices result of
                     None \<Rightarrow> (fallback_name_analysis char_name, st2)
                   | Some [] \<Rightarrow> (fallback_name_analysis char_name, st2)
                   | Some (choice # rest) \<Rightarrow>
                       (case message choice of
                          None \<Rightarrow> (fallback_name_analysis char_name, st2)
                        | Some msg \<Rightarrow>
                            (case msg ''content'' of
                               None \<Rightarrow> (fallback_name_analysis char_name, st2)
                             | Some content \<Rightarrow>
                                 (case json_loads w (strip content) of
                                    None \<Rightarrow> (fallback_name_analysis char_name, st2)
                                  | Some parsed \<Rightarrow>
                                      (case fill_required required_fields parsed of
                                         Inl e \<Rightarrow> (fallback_name_analysis char_name, st2)
                                       | Inr a \<Rightarrow>
                                           (a, st2\<lparr>name_analysis_cache :=
                                                     Some ((analysis_cache st2)
                                                       (lower char_name \<mapsto> a))\<rparr>))))))))"

definition male_voices :: "string list" where
  "male_voices =
     [''English_magnetic_voiced_man'', ''English_Aussie_Bloke'', ''English_Trustworth_Man'',
      ''English_Gentle-voiced_man'', ''English_Diligent_Man'', ''English_ReservedYoungMan'',
      ''English_ManWithDeepVoice'', ''English_FriendlyPerson'', ''English_Debator'',
      ''English_Steadymentor'', ''English_Deep-VoicedGentleman'', ''English_DecentYoungMan'',
      ''English_PassionateWarrior'']"

definition english_voices :: "(string \<times> string list) list" where
  "english_voices =
     [(''narrator'',
        [''English_expressive_narrator'', ''English_CaptivatingStoryteller'',
         ''English_WiseScholar'']),
      (''female'',
        [''English_radiant_girl'', ''English_compelling_lady1'', ''English_captivating_female1'',
         ''English_Upbeat_Woman'', ''English_CalmWoman'', ''English_Graceful_Lady'',
         ''English_PlayfulGirl'', ''English_LovelyGirl'', ''English_Wiselady'',
         ''English_SentimentalLady'', ''English_Soft-spokenGirl'']),
      (''male'', male_voices),
      (''villain'',
        [''English_ManWithDeepVoice'', ''English_Deep-VoicedGentleman'',
         ''English_ImposingManner'']),
      (''child'',
        [''English_radiant_girl'', ''English_PlayfulGirl'', ''English_LovelyGirl'',
         ''English_Soft-spokenGirl'']),
      (''elder'',
        [''English_WiseScholar'', ''English_Wiselady'', ''English_MaturePartner'',
         ''English_Steadymentor''])]"

text \<open>
  Lines 843 to 870: the category of an analysis that is a dictionary, from its
  \<open>gender\<close>, \<open>age_group\<close> and \<open>personality_trait\<close> (each \<open>unknown\<close> when missing).
\<close>

definition voice_category_of :: "(string \<times> json) list \<Rightarrow> string" where
  "voice_category_of d =
     (let gender = dict_get (map_of d) ''gender'' (JStr ''unknown'');
          age_group = dict_get (map_of d) ''age_group'' (JStr ''unknown'');
          personality = dict_get (map_of d) ''personality_trait'' (JStr ''unknown'');
          base =
            (if gender = JStr ''female'' then
               (if age_group = JStr ''child'' then ''child''
                else if age_group = JStr ''elder'' then ''elder''
                else ''female'')
             else if gender = JStr ''male'' then
               (if age_group = JStr ''child'' then ''child''
                else if age_group = JStr ''elder'' then ''elder''
                else ''male'')
             else ''male'')
      in if personality \<in> set [JStr ''villainous'', JStr ''sinister'', JStr ''evil''] then ''villain''
         else if personality \<in> set [JStr ''wise'', JStr ''scholarly'', JStr ''mentor''] then ''elder''
         else base)"

definition available_voices :: "string \<Rightarrow> string list" where
  "available_voices voice_category = dict_get (map_of english_voices) voice_category male_voices"

definition selection_index :: "teller \<Rightarrow> (string \<rightharpoonup> nat)" where
  "selection_index st = (case voice_selection_index st of None \<Rightarrow> Map.empty | Some m \<Rightarrow> m)"

text \<open>A value in an f-string.\<close>

definition format_value :: "world \<Rightarrow> json \<Rightarrow> string" where
  "format_value w v = (case v of JStr s \<Rightarrow> s | _ \<Rightarrow> py_str w v)"

text \<open>
  \<open>map_character_name_to_voice\<close>, lines 767 to 904. \<open>analysis.get\<close> at line 844 is
  outside every \<open>try\<close>: on an analysis that is not a dictionary it raises
  \<open>AttributeError\<close>, before the index and the cache are touched.
\<close>

definition map_character_name_to_voice ::
  "world \<Rightarrow> string \<Rightarrow> teller \<Rightarrow> (py_error + Character) \<times> teller" where
  "map_character_name_to_voice w char_name st0 =
     (case name_voice_cache st0 char_name of
        Some cached_voice \<Rightarrow> (Inr cached_voice, st0)
      | None \<Rightarrow>
          (let (a, st1) = analyze_character_name_with_ai w char_name st0
           in case a of
                JObj d \<Rightarrow>
                  (let gender = dict_get (map_of d) ''gender'' (JStr ''unknown'');
                       age_group = dict_get (map_of d) ''age_group'' (JStr ''unknown'');
                       personality = dict_get (map_of d) ''personality_trait'' (JStr ''unknown'');
                       voice_category = voice_category_of d;
                       i = dict_get (selection_index st1) voice_category 0;
                       selected_voice =
                         available_voices voice_category
                           ! (i mod length (available_voices voice_category));
                       new_character =
                         \<lparr>name = char_name,
                          description = ''AI-generated character with '' @ format_value w gender
                            @ '' voice, '' @ format_value w age_group @ '' age group, ''
                            @ format_value w personality @ '' personality'',
                          voice_id = selected_voice, speed = 1, volume = 1, pitch = 0,
                          emotion = ''neutral''\<rparr>
                   in (Inr new_character,
                       st1\<lparr>voice_selection_index :=
                             Some ((selection_index st1)(voice_category \<mapsto> i + 1)),
                           name_voice_cache :=
                             (name_voice_cache st1)(char_name \<mapsto> new_character)\<rparr>))
              | _ \<Rightarrow> (Inl AttributeError, st1)))"

section \<open>Segmentation\<close>

definition narrator_segment :: "string \<Rightarrow> teller \<Rightarrow> (py_error + StorySegment) \<times> teller" where
  "narrator_segment line st =
     (case characters st ''narrator'' of
        None \<Rightarrow> (Inl (KeyError ''narrator''), st)
      | Some c \<Rightarrow> (Inr \<lparr>character = Some c, seg_text = line, audio_file = None\<rparr>, st))"

text \<open>The body of the loop of \<open>parse_story_into_segments\<close> for a line that is not blank.\<close>

definition segment_of_line :: "world \<Rightarrow> string \<Rightarrow> teller \<Rightarrow> (py_error + StorySegment) \<times> teller" where
  "segment_of_line w line st =
     (if CHR '':'' \<in> set line then
        (let parts = split_once CHR '':'' line
         in if length parts = 2 then
              (let char_name_part = strip (parts ! 0);
                   dialogue = strip (parts ! 1);
                   char_name = strip (hd (split_on CHR ''('' char_name_part));
                   (mapped, st1) = map_character_name_to_voice w char_name st
               in case mapped of
                    Inl e \<Rightarrow> (Inl e, st1)
                  | Inr mapped_character \<Rightarrow>
                      (Inr \<lparr>character = Some mapped_character, seg_text = dialogue,
                            audio_file = None\<rparr>, st1))
            else narrator_segment line st)
      else narrator_segment line st)"

fun parse_lines :: "world \<Rightarrow> string list \<Rightarrow> teller \<Rightarrow> (py_error + StorySegment list) \<times> teller" where
  "parse_lines w [] st = (Inr [], st)"
| "parse_lines w (raw # rest) st =
     (let line = strip raw
      in if line = [] then parse_lines w rest st
         else (case segment_of_line w line st of
                 (Inl e, st1) \<Rightarrow> (Inl e, st1)
               | (Inr seg, st1) \<Rightarrow>
                   (case parse_lines w rest st1 of
                      (Inl e, st2) \<Rightarrow> (Inl e, st2)
                    | (Inr segs, st2) \<Rightarrow> (Inr (seg # segs), st2))))"

definition parse_story_into_segments ::
  "world \<Rightarrow> string \<Rightarrow> teller \<Rightarrow> (py_error + StorySegment list) \<times> teller" where
  "parse_story_into_segments w story st =
     (case parse_lines w (split_on CHR 0x0A story) st of
        (Inl e, st1) \<Rightarrow> (Inl e, st1)
      | (Inr segments, st1) \<Rightarrow> (Inr segments, st1\<lparr>story_segments := segments\<rparr>))"

section \<open>Synthesis\<close>

text \<open>\<open>str\<close> of an integer, for the time stamp in the file name.\<close>

fun str_nat :: "nat \<Rightarrow> string" where
  "str_nat n =
     (if n < 10 then [''0123456789'' ! n]
      else str_nat (n div 10) @ [''0123456789'' ! (n mod 10)])"

declare str_nat.simps [simp del]

definition str_int :: "int \<Rightarrow> string" where
  "str_int i = (if i < 0 then ''-'' @ str_nat (nat (- i)) else str_nat (nat i))"

text \<open>
  \<open>bytes.fromhex\<close>: pairs of hexadecimal digits, with ASCII white space allowed between
  the pairs; \<open>None\<close> is the \<open>ValueError\<close>.
\<close>

definition hex_value :: "char \<Rightarrow> nat option" where
  "hex_value c =
     map_of (zip ''0123456789abcdefABCDEF''
       [0, 1, 2, 3, 4, 5, 6, 7, 8, 9, 10, 11, 12, 13, 14, 15, 10, 11, 12, 13, 14, 15]) c"

definition ascii_space :: "char \<Rightarrow> bool" where
  "ascii_space c \<longleftrightarrow> c \<in> set [CHR 0x20, CHR 0x09, CHR 0x0A, CHR 0x0B, CHR 0x0C, CHR 0x0D]"

fun fromhex :: "string \<Rightarrow> nat list option" where
  "fromhex [] = Some []"
| "fromhex [c] = (if ascii_space c then Some [] else None)"
| "fromhex (c # d # cs) =
     (if ascii_space c then fromhex (d # cs)
      else (case (hex_value c, hex_value d) of
              (Some h, Some l) \<Rightarrow> map_option ((#) (16 * h + l)) (fromhex cs)
            | _ \<Rightarrow> None))"

text \<open>
  \<open>generate_audio_for_segment\<close>, lines 969 to 1081. \<open>timestamp\<close> is the reading
  \<open>int(time.time())\<close>. Two steps are outside the \<open>try\<close> and their exceptions leave
  the function: the first lines read \<open>segment.character.name\<close> (\<open>AttributeError\<close>
  without a character), and a directory that does not exist is created with
  \<open>os.makedirs\<close> (\<open>OSError\<close>). Inside the \<open>try\<close>, every handler returns
  \<open>None\<close>, also when the file cannot be written. The result is the returned file name
  and the segment, with its \<open>audio_file\<close> set on success.
\<close>

definition generate_audio_for_segment ::
  "world \<Rightarrow> int \<Rightarrow> StorySegment \<Rightarrow> string \<Rightarrow> teller
     \<Rightarrow> (py_error + string option \<times> StorySegment) \<times> teller" where
  "generate_audio_for_segment w timestamp segment output_dir st0 =
     (case character segment of
        None \<Rightarrow> (Inl AttributeError, st0)
      | Some ch \<Rightarrow>
          if \<not> path_exists w output_dir \<and> \<not> can_makedirs w output_dir then (Inl OSError, st0)
          else
          (let filename = output_dir @ ''/'' @ name ch @ ''_'' @ str_int timestamp @ ''.mp3''
           in case request_with_retry ''tts'' (post_tts w) st0 of
                (Inl e, st1) \<Rightarrow> (Inr (if is_request_exception e then None else None, segment), st1)
              | (Inr result, st1) \<Rightarrow>
                  (case data result of
                     None \<Rightarrow> (Inr (None, segment), st1)
                   | Some d \<Rightarrow>
                       (case d ''audio'' of
                          None \<Rightarrow> (Inr (None, segment), st1)
                        | Some audio_hex \<Rightarrow>
                            (case fromhex audio_hex of
                               None \<Rightarrow> (Inr (None, segment), st1)
                             | Some audio_bytes \<Rightarrow>
                                 if can_write w filename then
                                   (Inr (Some filename, segment\<lparr>audio_file := Some filename\<rparr>),
                                    st1)
                                 else (Inr (None, segment), st1))))))"

text \<open>
  The loop of \<open>generate_full_story_audio\<close>, lines 1091 to 1101, from segment \<open>i\<close> on;
  \<open>clock i\<close> is the time read for segment \<open>i\<close>. The segment objects are those of
  \<open>story_segments\<close>, so setting \<open>audio_file\<close> changes the list.
\<close>

fun audio_loop ::
  "world \<Rightarrow> (nat \<Rightarrow> int) \<Rightarrow> string \<Rightarrow> nat \<Rightarrow> StorySegment list \<Rightarrow> teller
     \<Rightarrow> (py_error + string list) \<times> teller" where
  "audio_loop w clock output_dir i [] st = (Inr [], st)"
| "audio_loop w clock output_dir i (segment # rest) st =
     (case generate_audio_for_segment w (clock i) segment output_dir st of
        (Inl e, st1) \<Rightarrow> (Inl e, st1)
      | (Inr (audio, segment'), st1) \<Rightarrow>
          (case audio_loop w clock output_dir (Suc i) rest
                  (st1\<lparr>story_segments := (story_segments st1)[i := segment']\<rparr>) of
             (Inl e, st2) \<Rightarrow> (Inl e, st2)
           | (Inr audio_files, st2) \<Rightarrow>
               (Inr ((case audio of
                        None \<Rightarrow> []
                      | Some f \<Rightarrow> if f \<noteq> [] then [f] else []) @ audio_files), st2)))"

definition generate_full_story_audio ::
  "world \<Rightarrow> (nat \<Rightarrow> int) \<Rightarrow> string \<Rightarrow> teller \<Rightarrow> (py_error + string list) \<times> teller" where
  "generate_full_story_audio w clock output_dir st =
     audio_loop w clock output_dir 0 (story_segments st) st"

section \<open>Rate limiter\<close>

text \<open>
  \<open>RateLimiter\<close>, lines 62 to 101. Times are rationals. \<open>wait_if_needed\<close> reads the
  clock on entry (\<open>now\<close>) and once more after the first sleep; that reading is the time
  of entry plus the time slept plus \<open>lag\<close>, the time that passed beyond the sleep. It
  returns the limiter and the sleeps it made, in order.
\<close>

record RateLimiter =
  requests_per_minute :: int
  request_times :: "rat list"
  min_interval :: rat

definition new_RateLimiter :: "int \<Rightarrow> py_error + RateLimiter" where
  "new_RateLimiter rpm =
     (if rpm = 0 then Inl ZeroDivisionError
      else Inr \<lparr>requests_per_minute = rpm, request_times = [], min_interval = 60 / of_int rpm\<rparr>)"

definition list_min :: "rat list \<Rightarrow> rat" where
  "list_min xs = fold min (tl xs) (hd xs)"

definition wait_if_needed :: "rat \<Rightarrow> rat \<Rightarrow> RateLimiter \<Rightarrow> py_error + RateLimiter \<times> rat list" where
  "wait_if_needed now lag rl =
     (let pruned = filter (\<lambda>t. now - t < 60) (request_times rl)
      in case (if requests_per_minute rl \<le> int (length pruned) then
                 (if pruned = [] then Inl ValueError
                  else (let oldest_request = list_min pruned;
                            wait_time = 60 - (now - oldest_request) + 1
                        in if 0 < wait_time then Inr (now + wait_time + lag, [wait_time])
                           else Inr (now, [])))
               else Inr (now, [])) of
           Inl e \<Rightarrow> Inl e
         | Inr (current_time, sleeps) \<Rightarrow>
             (let times = pruned @ [current_time];
                  sleeps2 =
                    (if 1 < length times then
                       (let time_since_last = current_time - times ! (length times - 2)
                        in if time_since_last < min_interval rl
                           then [min_interval rl - time_since_last] else [])
                     else [])
              in Inr (rl\<lparr>request_times := times\<rparr>, sleeps @ sleeps2)))"

section \<open>The orchestrator as constructed\<close>

definition default_characters :: "string \<rightharpoonup> Character" where
  "default_characters = map_of
     [(''narrator'',
        \<lparr>name = ''Narrator'',
         description = ''A wise storyteller with a warm, engaging voice who brings the world to life with vivid descriptions'',
         voice_id = ''English_expressive_narrator'', speed = 1, volume = 1, pitch = 0,
         emotion = ''calm''\<rparr>),
      (''hero'',
        \<lparr>name = ''Hero'',
         description = ''A courageous protagonist with a heart of gold, facing inner doubts and external challenges with determination and growth'',
         voice_id = ''English_magnetic_voiced_man'', speed = 1, volume = 1, pitch = 0,
         emotion = ''brave''\<rparr>),
      (''villain'',
        \<lparr>name = ''Villain'',
         description = ''A complex antagonist with layers of motivation, not purely evil but driven by pain, fear, or misguided beliefs'',
         voice_id = ''English_ManWithDeepVoice'', speed = 0.8, volume = 1, pitch = - 0.3,
         emotion = ''sinister''\<rparr>),
      (''friend'',
        \<lparr>name = ''Friend'',
         description = ''A loyal companion who provides emotional support, wisdom, and sometimes tough love when needed'',
         voice_id = ''English_radiant_girl'', speed = 1.1, volume = 1, pitch = 0.2,
         emotion = ''friendly''\<rparr>)]"

text \<open>\<open>__init__\<close>, with \<open>retry_delay\<close> from \<open>RATE_LIMITS\<close> in \<open>config.py\<close>.\<close>

definition init_teller :: teller where
  "init_teller =
     \<lparr>retry_delay = 60, characters = default_characters, story_segments = [],
      current_story = [], name_voice_cache = Map.empty, api_usage_stats = None,
      name_analysis_cache = None, voice_selection_index = None,
      chat_posts = 0, tts_posts = 0, trace = []\<rparr>"

definition add_character :: "Character \<Rightarrow> teller \<Rightarrow> teller" where
  "add_character c st = st\<lparr>characters := (characters st)(lower (name c) \<mapsto> c)\<rparr>"

text \<open>
  The attributes of a \<open>MiniMaxStoryTeller\<close>: the class attributes and methods of the
  class body (lines 104 to 1148), the instance attributes that \<open>__init__\<close> sets, and
  the three attributes that exist once the code has created them.
\<close>

definition teller_attributes :: "teller \<Rightarrow> string list" where
  "teller_attributes st =
     [''MODELS'', ''MODEL_COSTS'', ''__init__'', ''add_character'', ''generate_story_prompt'',
      ''make_api_call'', ''get_usage_statistics'', ''print_usage_summary'', ''generate_story'',
      ''analyze_character_name_with_ai'', ''fallback_name_analysis'',
      ''map_character_name_to_voice'', ''parse_story_into_segments'',
      ''generate_audio_for_segment'', ''generate_full_story_audio'', ''play_audio_file'',
      ''create_story_script'',
      ''api_key'', ''group_id'', ''chat_url'', ''tts_url'', ''ws_url'', ''headers'',
      ''chat_limiter'', ''tts_limiter'', ''retry_delay'', ''max_retries'', ''characters'',
      ''story_segments'', ''current_story'', ''name_voice_cache'']
     @ (if api_usage_stats st = None then [] else [''api_usage_stats''])
     @ (if name_analysis_cache st = None then [] else [''name_analysis_cache''])
     @ (if voice_selection_index st = None then [] else [''voice_selection_index''])"

text \<open>Attribute lookup on the orchestrator: the name, or \<open>AttributeError\<close>.\<close>

definition getattr_teller :: "teller \<Rightarrow> string \<Rightarrow> py_error + string" where
  "getattr_teller st attr =
     (if attr \<in> set (teller_attributes st) then Inr attr else Inl AttributeError)"

text \<open>
  \<open>InteractiveStoryTeller.generate_streaming_audio\<close> (\<open>interactive_storyteller.py\<close>,
  lines 537 to 553) up to the evaluation of
  \<open>self.storyteller.generate_full_story_audio_streaming\<close> on its orchestrator.
\<close>

definition generate_streaming_audio :: "teller \<Rightarrow> py_error + string" where
  "generate_streaming_audio st = getattr_teller st ''generate_full_story_audio_streaming''"

section \<open>Example inputs and notions of the theorems\<close>

text \<open>A successful reply with the usage of 1000 prompt tokens and 500 completion tokens.\<close>

definition sample_result :: chat_result where
  "sample_result =
     \<lparr>choices = Some [\<lparr>message = Some (map_of [(''content'', ''Narrator: The sun rose.'')]),
                        finish_reason = Some ''stop''\<rparr>],
      usage = Some (map_of [(''prompt_tokens'', 1000), (''completion_tokens'', 500),
                            (''total_tokens'', 1500)])\<rparr>"

text \<open>
  A world in which no service can be reached and the file system accepts everything; the
  example worlds change it where they need.
\<close>

definition quiet_world :: world where
  "quiet_world =
     \<lparr>chat_service = (\<lambda>n. Refused), tts_service = (\<lambda>n. Refused),
      json_loads = (\<lambda>s. None), py_str = (\<lambda>v. []),
      path_exists = (\<lambda>p. True), can_makedirs = (\<lambda>p. True), can_write = (\<lambda>p. True)\<rparr>"

definition sample_world :: world where
  "sample_world = quiet_world\<lparr>chat_service := (\<lambda>n. Response 200 (Some sample_result))\<rparr>"

text \<open>
  Services that throttle the first request, after which the chat service fails with status
  500 and the synthesis service answers with two bytes of audio; services that answer 200
  with a body that is not JSON; a chat service whose every request fails with status 500;
  a segment with a speaker.
\<close>

definition throttle_world :: world where
  "throttle_world =
     quiet_world\<lparr>chat_service := (\<lambda>n. if n = 0 then Response 429 None else Response 500 None),
                 tts_service :=
                   (\<lambda>n. if n = 0 then Response 429 None
                        else Response 200 (Some \<lparr>data = Some (map_of [(''audio'', ''00ff'')])\<rparr>))\<rparr>"

definition garbled_world :: world where
  "garbled_world =
     quiet_world\<lparr>chat_service := (\<lambda>n. Response 200 None),
                 tts_service := (\<lambda>n. Response 200 None)\<rparr>"

definition failing_world :: world where
  "failing_world = quiet_world\<lparr>chat_service := (\<lambda>n. Response 500 None)\<rparr>"

definition kael_segment :: StorySegment where
  "kael_segment =
     \<lparr>character = Some \<lparr>name = ''Kael'', description = ''a traveller'',
          voice_id = ''English_magnetic_voiced_man'', speed = 1, volume = 1, pitch = 0,
          emotion = ''neutral''\<rparr>,
      seg_text = ''I must go!'', audio_file = None\<rparr>"

text \<open>
  Worlds for story generation: every chat request is answered with the given result.
  Three results without a story, and a synthesis service that answers with two bytes of
  audio.
\<close>

definition reply_world :: "chat_result \<Rightarrow> world" where
  "reply_world r = quiet_world\<lparr>chat_service := (\<lambda>n. Response 200 (Some r))\<rparr>"

definition length_result :: chat_result where
  "length_result =
     \<lparr>choices = Some [\<lparr>message = Some (map_of [(''content'', [])]),
                        finish_reason = Some ''length''\<rparr>],
      usage = None\<rparr>"

definition empty_result :: chat_result where
  "empty_result =
     \<lparr>choices = Some [\<lparr>message = Some (map_of [(''content'', [])]),
                        finish_reason = Some ''stop''\<rparr>],
      usage = None\<rparr>"

definition no_choices_result :: chat_result where
  "no_choices_result = \<lparr>choices = None, usage = None\<rparr>"

definition audio_world :: world where
  "audio_world =
     quiet_world\<lparr>tts_service :=
       (\<lambda>n. Response 200 (Some \<lparr>data = Some (map_of [(''audio'', ''00ff'')])\<rparr>))\<rparr>"

text \<open>
  For the rate limiter: the timestamps of a window within the 60 seconds before its
  newest one, and the bound that the limiter keeps. A limiter of two requests per minute.
\<close>

definition recent :: "rat list \<Rightarrow> rat list" where
  "recent ts = filter (\<lambda>t. last ts - t < 60) ts"

definition window_ok :: "RateLimiter \<Rightarrow> bool" where
  "window_ok rl \<longleftrightarrow>
     int (length (recent (request_times rl))) \<le> requests_per_minute rl \<and>
     list_all (\<lambda>t. t \<le> last (request_times rl)) (request_times rl)"

definition two_per_minute :: RateLimiter where
  "two_per_minute = \<lparr>requests_per_minute = 2, request_times = [], min_interval = 30\<rparr>"


text \<open>
  The profiles that a session creates in a category: those of the names that were not in
  the cache when resolved and whose analysis, a dictionary, fell into the category, in
  order.
\<close>

fun new_in_category :: "world \<Rightarrow> string \<Rightarrow> string list \<Rightarrow> teller \<Rightarrow> Character list" where
  "new_in_category w cat [] st = []"
| "new_in_category w cat (n # ns) st =
     (let rest = new_in_category w cat ns (snd (map_character_name_to_voice w n st))
      in if name_voice_cache st n = None then
           (case fst (analyze_character_name_with_ai w n st) of
              JObj d \<Rightarrow>
                if voice_category_of d = cat then
                  (case fst (map_character_name_to_voice w n st) of
                     Inr c \<Rightarrow> c # rest
                   | Inl e \<Rightarrow> rest)
                else rest
            | _ \<Rightarrow> rest)
         else rest)"

text \<open>
  For the parser. The voice cache as the code fills it: a profile is stored under its own
  name. A classifier whose parsed answers are dictionaries or are refused by the loop over
  the required fields, and an analysis cache that holds dictionaries only. The
  segmentation in the words of the specification: of each line that is not blank, the
  label before the first colon without its parenthetical suffix and the content after the
  colon, or the default speaker and the whole line; blank lines are dropped and the order
  is that of the lines. Labels, contents and lines are taken without the white space
  around them. The speaker's name and the text of a segment, and the story of the
  specification's example.
\<close>

definition cache_named :: "teller \<Rightarrow> bool" where
  "cache_named st \<longleftrightarrow> (\<forall>k c. name_voice_cache st k = Some c \<longrightarrow> name c = k)"

definition is_object :: "json \<Rightarrow> bool" where
  "is_object a = (case a of JObj d \<Rightarrow> True | _ \<Rightarrow> False)"

definition answers_objects :: "world \<Rightarrow> bool" where
  "answers_objects w \<longleftrightarrow>
     (\<forall>s a. json_loads w s = Some a \<longrightarrow>
        is_object a \<or> fill_required required_fields a = Inl TypeError)"

definition analysis_objects :: "teller \<Rightarrow> bool" where
  "analysis_objects st \<longleftrightarrow> (\<forall>k a. analysis_cache st k = Some a \<longrightarrow> is_object a)"

definition spec_line :: "string \<Rightarrow> string \<times> string" where
  "spec_line line =
     (if CHR '':'' \<in> set line then
        (strip (takeWhile (\<lambda>c. c \<noteq> CHR ''('') (strip (takeWhile (\<lambda>c. c \<noteq> CHR '':'') line))),
         strip (tl (dropWhile (\<lambda>c. c \<noteq> CHR '':'') line)))
      else (''Narrator'', line))"

definition spec_segments :: "string \<Rightarrow> (string \<times> string) list" where
  "spec_segments story =
     map spec_line (filter (\<lambda>line. line \<noteq> []) (map strip (split_on CHR 0x0A story)))"

definition speaker_and_text :: "StorySegment \<Rightarrow> string option \<times> string" where
  "speaker_and_text seg = (map_option name (character seg), seg_text seg)"

definition example_story :: string where
  "example_story =
     ''Narrator: The sun rose.'' @ [CHR 0x0A] @ ''Kael: I must go!'' @ [CHR 0x0A] @ ''just text''"

text \<open>
  A classifier that answers every request with a JSON string that names the five fields.
\<close>

definition field_names_text :: string where
  "field_names_text = ''gender age_group personality_trait voice_type confidence''"

definition string_reply_world :: world where
  "string_reply_world =
     quiet_world
       \<lparr>chat_service :=
          (\<lambda>n. Response 200 (Some
             \<lparr>choices = Some [\<lparr>message = Some (map_of
                   [(''content'', [CHR 0x22] @ field_names_text @ [CHR 0x22])]),
                 finish_reason = Some ''stop''\<rparr>],
              usage = None\<rparr>)),
        json_loads :=
          (\<lambda>s. if s = [CHR 0x22] @ field_names_text @ [CHR 0x22]
               then Some (JStr field_names_text) else None)\<rparr>"

section \<open>The chat request and the ledger\<close>

lemma call_cost_M1:
  "call_cost ''MiniMax-M1'' p c t = (of_int p / 1000000) * 0.4 + (of_int c / 1000000) * 2.2"
  by (simp add: call_cost_def MODEL_COSTS_def)

lemma chat_request_ok:
  "chat_service w (chat_posts st) = Response code (Some r) \<Longrightarrow> code \<noteq> 429 \<Longrightarrow>
   \<not> (400 \<le> code \<and> code < 600) \<Longrightarrow>
   request_with_retry ''chat'' (post_chat w) st =
     (Inr r, st\<lparr>chat_posts := Suc (chat_posts st),
               trace := trace st @ [WaitIfNeeded ''chat'', Post ''chat'']\<rparr>)"
  by (simp add: request_with_retry_def post_chat_def log_event_def checked_json_def)

text \<open>
  C1, as amended: a story generation call (model \<open>MiniMax-M1\<close>, 0.4 and 2.2 dollars per
  million input and output tokens) whose reply reports 1000 prompt tokens and 500
  completion tokens adds \<open>1000/1e6*0.4 + 500/1e6*2.2\<close> to the estimated cost of the
  ledger, and the two terms are 0.0004 and 0.0011, together 0.0015 dollars.
\<close>

theorem make_api_call_adds_token_cost:
  assumes "chat_service w (chat_posts st) = Response 200 (Some r)"
    and "usage r = Some u"
    and "u ''prompt_tokens'' = Some 1000"
    and "u ''completion_tokens'' = Some 500"
  shows "fst (make_api_call w ''story_generation'' st) = Inr r \<and>
     map_option estimated_cost
         (api_usage_stats (snd (make_api_call w ''story_generation'' st))) =
       Some ((case api_usage_stats st of None \<Rightarrow> 0 | Some s \<Rightarrow> estimated_cost s)
              + (1000 / 1000000 * 0.4 + 500 / 1000000 * 2.2)) \<and>
     (1000 / 1000000 * 0.4 :: rat) = 0.0004 \<and>
     (500 / 1000000 * 2.2 :: rat) = 0.0011 \<and>
     (1000 / 1000000 * 0.4 + 500 / 1000000 * 2.2 :: rat) = 0.0015"
  using assms
  by (cases "api_usage_stats st")
     (simp_all add: make_api_call_def Let_def MODELS_def chat_request_ok record_usage_def
        dict_get_def call_cost_M1 empty_stats_def)

text \<open>
  C1, witness: on a new orchestrator and the sample reply, the call returns the reply and
  the ledger holds 0.0015 dollars.
\<close>

theorem make_api_call_adds_token_cost_witness:
  "fst (make_api_call sample_world ''story_generation'' init_teller) = Inr sample_result \<and>
   map_option estimated_cost
       (api_usage_stats (snd (make_api_call sample_world ''story_generation'' init_teller))) =
     Some 0.0015"
  using make_api_call_adds_token_cost [of sample_world init_teller sample_result
      "map_of [(''prompt_tokens'', 1000), (''completion_tokens'', 500), (''total_tokens'', 1500)]"]
  by (simp add: sample_world_def quiet_world_def sample_result_def init_teller_def)

text \<open>
  C1, counterexample: on the same input the recorded cost is not
  \<open>0.0000011 + 0.0000015 = 0.0000026\<close>, and neither term of the formula has the value
  the claim gives it.
\<close>

theorem token_cost_counterexample:
  "map_option estimated_cost
       (api_usage_stats (snd (make_api_call sample_world ''story_generation'' init_teller)))
     \<noteq> Some (0.0000011 + 0.0000015) \<and>
   (1000 / 1000000 * 0.4 :: rat) \<noteq> 0.0000011 \<and>
   (500 / 1000000 * 2.2 :: rat) \<noteq> 0.0000015"
  by (simp add: make_api_call_def Let_def MODELS_def chat_request_ok record_usage_def
        dict_get_def call_cost_M1 empty_stats_def sample_world_def quiet_world_def sample_result_def
        init_teller_def)

section \<open>The streaming operation\<close>

text \<open>
  C9: the interactive menu's streaming option evaluates
  \<open>self.storyteller.generate_full_story_audio_streaming\<close>; the orchestrator, in
  whatever state, has no attribute of that name, so the lookup raises \<open>AttributeError\<close>.
\<close>

theorem generate_streaming_audio_raises:
  "generate_streaming_audio st = Inl AttributeError"
  by (simp add: generate_streaming_audio_def getattr_teller_def teller_attributes_def)

section \<open>Retry on throttle\<close>

lemma chat_request_throttled:
  "chat_service w (chat_posts st) = Response 429 b \<Longrightarrow>
   request_with_retry ''chat'' (post_chat w) st =
     ((case chat_service w (Suc (chat_posts st)) of
         Refused \<Rightarrow> Inl ConnectionError
       | Response c2 b2 \<Rightarrow> checked_json c2 b2),
      st\<lparr>chat_posts := Suc (Suc (chat_posts st)),
         trace := trace st @ [WaitIfNeeded ''chat'', Post ''chat'', Sleep (retry_delay st),
                    WaitIfNeeded ''chat'', Post ''chat'']\<rparr>)"
  by (simp add: request_with_retry_def post_chat_def log_event_def split: http_reply.split)

lemma chat_request_first:
  "\<not> (\<exists>b. chat_service w (chat_posts st) = Response 429 b) \<Longrightarrow>
   request_with_retry ''chat'' (post_chat w) st =
     ((case chat_service w (chat_posts st) of
         Refused \<Rightarrow> Inl ConnectionError
       | Response c b \<Rightarrow> checked_json c b),
      st\<lparr>chat_posts := Suc (chat_posts st),
         trace := trace st @ [WaitIfNeeded ''chat'', Post ''chat'']\<rparr>)"
  by (auto simp add: request_with_retry_def post_chat_def log_event_def split: http_reply.split)

lemma tts_request_throttled:
  "tts_service w (tts_posts st) = Response 429 b \<Longrightarrow>
   request_with_retry ''tts'' (post_tts w) st =
     ((case tts_service w (Suc (tts_posts st)) of
         Refused \<Rightarrow> Inl ConnectionError
       | Response c2 b2 \<Rightarrow> checked_json c2 b2),
      st\<lparr>tts_posts := Suc (Suc (tts_posts st)),
         trace := trace st @ [WaitIfNeeded ''tts'', Post ''tts'', Sleep (retry_delay st),
                    WaitIfNeeded ''tts'', Post ''tts'']\<rparr>)"
  by (simp add: request_with_retry_def post_tts_def log_event_def split: http_reply.split)

lemma tts_request_first:
  "\<not> (\<exists>b. tts_service w (tts_posts st) = Response 429 b) \<Longrightarrow>
   request_with_retry ''tts'' (post_tts w) st =
     ((case tts_service w (tts_posts st) of
         Refused \<Rightarrow> Inl ConnectionError
       | Response c b \<Rightarrow> checked_json c b),
      st\<lparr>tts_posts := Suc (tts_posts st),
         trace := trace st @ [WaitIfNeeded ''tts'', Post ''tts'']\<rparr>)"
  by (auto simp add: request_with_retry_def post_tts_def log_event_def split: http_reply.split)

lemma make_api_call_request:
  "fst (make_api_call w mt st) =
     fst (request_with_retry ''chat'' (post_chat w)
            (case api_usage_stats st of None \<Rightarrow> st\<lparr>api_usage_stats := Some empty_stats\<rparr> | Some s \<Rightarrow> st))"
  "chat_posts (snd (make_api_call w mt st)) =
     chat_posts (snd (request_with_retry ''chat'' (post_chat w)
            (case api_usage_stats st of None \<Rightarrow> st\<lparr>api_usage_stats := Some empty_stats\<rparr> | Some s \<Rightarrow> st)))"
  "trace (snd (make_api_call w mt st)) =
     trace (snd (request_with_retry ''chat'' (post_chat w)
            (case api_usage_stats st of None \<Rightarrow> st\<lparr>api_usage_stats := Some empty_stats\<rparr> | Some s \<Rightarrow> st)))"
  by (simp_all add: make_api_call_def Let_def split: prod.split sum.split)

lemma prepared_fields:
  "chat_posts (case api_usage_stats st of None \<Rightarrow> st\<lparr>api_usage_stats := Some empty_stats\<rparr> | Some s \<Rightarrow> st) = chat_posts st"
  "trace (case api_usage_stats st of None \<Rightarrow> st\<lparr>api_usage_stats := Some empty_stats\<rparr> | Some s \<Rightarrow> st) = trace st"
  "retry_delay (case api_usage_stats st of None \<Rightarrow> st\<lparr>api_usage_stats := Some empty_stats\<rparr> | Some s \<Rightarrow> st) = retry_delay st"
  by (simp_all split: option.split)

lemma audio_request:
  "character seg = Some ch \<Longrightarrow> path_exists w dir \<or> can_makedirs w dir \<Longrightarrow>
   tts_posts (snd (generate_audio_for_segment w ts seg dir st)) =
     tts_posts (snd (request_with_retry ''tts'' (post_tts w) st))"
  "character seg = Some ch \<Longrightarrow> path_exists w dir \<or> can_makedirs w dir \<Longrightarrow>
   trace (snd (generate_audio_for_segment w ts seg dir st)) =
     trace (snd (request_with_retry ''tts'' (post_tts w) st))"
  by (auto simp add: generate_audio_for_segment_def Let_def
        split: prod.split sum.split option.split)

lemma audio_result:
  "character seg = Some ch \<Longrightarrow> path_exists w dir \<or> can_makedirs w dir \<Longrightarrow>
   fst (generate_audio_for_segment w ts seg dir st) =
     (case fst (request_with_retry ''tts'' (post_tts w) st) of
        Inl e \<Rightarrow> Inr (None, seg)
      | Inr result \<Rightarrow>
          (case data result of
             None \<Rightarrow> Inr (None, seg)
           | Some a \<Rightarrow>
               (case a ''audio'' of
                  None \<Rightarrow> Inr (None, seg)
                | Some audio_hex \<Rightarrow>
                    (case fromhex audio_hex of
                       None \<Rightarrow> Inr (None, seg)
                     | Some audio_bytes \<Rightarrow>
                         if can_write w (dir @ ''/'' @ name ch @ ''_'' @ str_int ts @ ''.mp3'')
                         then Inr (Some (dir @ ''/'' @ name ch @ ''_'' @ str_int ts @ ''.mp3''),
                                   seg\<lparr>audio_file :=
                                     Some (dir @ ''/'' @ name ch @ ''_'' @ str_int ts @ ''.mp3'')\<rparr>)
                         else Inr (None, seg)))))"
  by (cases "request_with_retry ''tts'' (post_tts w) st")
     (auto simp add: generate_audio_for_segment_def Let_def split: sum.split option.split)

text \<open>
  C3: when the first attempt of a generation call (\<open>make_api_call\<close>) or of a synthesis
  call (\<open>generate_audio_for_segment\<close>, once it has its speaker and its directory) is
  answered with status 429, the code sleeps \<open>retry_delay\<close>, acquires the limiter again
  and posts once more: two attempts, and the second reply alone decides the outcome,
  success or failure (a failure, also a second 429, is raised by \<open>make_api_call\<close> and
  ends \<open>generate_audio_for_segment\<close> with \<open>None\<close>; a success is the parsed result, and
  in synthesis the file name). When the first attempt is answered otherwise, with a
  failure (no connection, an error status, a body that is not JSON) or not, there is
  one attempt and the first reply decides the outcome.
\<close>

theorem retry_exactly_once:
  "(chat_service w (chat_posts st) = Response 429 b \<longrightarrow>
      chat_posts (snd (make_api_call w model_type st)) = chat_posts st + 2 \<and>
      trace (snd (make_api_call w model_type st)) =
        trace st @ [WaitIfNeeded ''chat'', Post ''chat'', Sleep (retry_delay st),
                    WaitIfNeeded ''chat'', Post ''chat''] \<and>
      fst (make_api_call w model_type st) =
        (case chat_service w (Suc (chat_posts st)) of
           Refused \<Rightarrow> Inl ConnectionError
         | Response c2 b2 \<Rightarrow>
             if 400 \<le> c2 \<and> c2 < 600 then Inl (HTTPError c2)
             else (case b2 of None \<Rightarrow> Inl JSONDecodeError | Some r \<Rightarrow> Inr r))) \<and>
   ((\<forall>b'. chat_service w' (chat_posts st') \<noteq> Response 429 b') \<longrightarrow>
      chat_posts (snd (make_api_call w' model_type st')) = chat_posts st' + 1 \<and>
      trace (snd (make_api_call w' model_type st')) =
        trace st' @ [WaitIfNeeded ''chat'', Post ''chat''] \<and>
      fst (make_api_call w' model_type st') =
        (case chat_service w' (chat_posts st') of
           Refused \<Rightarrow> Inl ConnectionError
         | Response c1 b1 \<Rightarrow>
             if 400 \<le> c1 \<and> c1 < 600 then Inl (HTTPError c1)
             else (case b1 of None \<Rightarrow> Inl JSONDecodeError | Some r \<Rightarrow> Inr r))) \<and>
   (tts_service w (tts_posts st) = Response 429 d \<and> character seg = Some ch \<and>
    (path_exists w dir \<or> can_makedirs w dir) \<longrightarrow>
      tts_posts (snd (generate_audio_for_segment w ts seg dir st)) = tts_posts st + 2 \<and>
      trace (snd (generate_audio_for_segment w ts seg dir st)) =
        trace st @ [WaitIfNeeded ''tts'', Post ''tts'', Sleep (retry_delay st),
                    WaitIfNeeded ''tts'', Post ''tts''] \<and>
      fst (generate_audio_for_segment w ts seg dir st) =
        (case tts_service w (Suc (tts_posts st)) of
           Refused \<Rightarrow> Inr (None, seg)
         | Response c2 b2 \<Rightarrow>
             if 400 \<le> c2 \<and> c2 < 600 then Inr (None, seg)
             else (case b2 of
                     None \<Rightarrow> Inr (None, seg)
                   | Some result \<Rightarrow>
                       (case data result of
                          None \<Rightarrow> Inr (None, seg)
                        | Some a \<Rightarrow>
                            (case a ''audio'' of
                               None \<Rightarrow> Inr (None, seg)
                             | Some audio_hex \<Rightarrow>
                                 (case fromhex audio_hex of
                                    None \<Rightarrow> Inr (None, seg)
                                  | Some audio_bytes \<Rightarrow>
                                      if can_write w
                                           (dir @ ''/'' @ name ch @ ''_'' @ str_int ts @ ''.mp3'')
                                      then Inr (Some (dir @ ''/'' @ name ch @ ''_'' @ str_int ts
                                                        @ ''.mp3''),
                                                seg\<lparr>audio_file :=
                                                  Some (dir @ ''/'' @ name ch @ ''_''
                                                          @ str_int ts @ ''.mp3'')\<rparr>)
                                      else Inr (None, seg))))))) \<and>
   ((\<forall>d'. tts_service w' (tts_posts st') \<noteq> Response 429 d') \<and> character seg = Some ch \<and>
    (path_exists w' dir \<or> can_makedirs w' dir) \<longrightarrow>
      tts_posts (snd (generate_audio_for_segment w' ts seg dir st')) = tts_posts st' + 1 \<and>
      trace (snd (generate_audio_for_segment w' ts seg dir st')) =
        trace st' @ [WaitIfNeeded ''tts'', Post ''tts''] \<and>
      fst (generate_audio_for_segment w' ts seg dir st') =
        (case tts_service w' (tts_posts st') of
           Refused \<Rightarrow> Inr (None, seg)
         | Response c1 b1 \<Rightarrow>
             if 400 \<le> c1 \<and> c1 < 600 then Inr (None, seg)
             else (case b1 of
                     None \<Rightarrow> Inr (None, seg)
                   | Some result \<Rightarrow>
                       (case data result of
                          None \<Rightarrow> Inr (None, seg)
                        | Some a \<Rightarrow>
                            (case a ''audio'' of
                               None \<Rightarrow> Inr (None, seg)
                             | Some audio_hex \<Rightarrow>
                                 (case fromhex audio_hex of
                                    None \<Rightarrow> Inr (None, seg)
                                  | Some audio_bytes \<Rightarrow>
                                      if can_write w'
                                           (dir @ ''/'' @ name ch @ ''_'' @ str_int ts @ ''.mp3'')
                                      then Inr (Some (dir @ ''/'' @ name ch @ ''_'' @ str_int ts
                                                        @ ''.mp3''),
                                                seg\<lparr>audio_file :=
                                                  Some (dir @ ''/'' @ name ch @ ''_''
                                                          @ str_int ts @ ''.mp3'')\<rparr>)
                                      else Inr (None, seg)))))))"
proof (intro conjI impI)
  assume h: "chat_service w (chat_posts st) = Response 429 b"
  show "chat_posts (snd (make_api_call w model_type st)) = chat_posts st + 2"
    using h by (simp add: make_api_call_request prepared_fields chat_request_throttled)
  show "trace (snd (make_api_call w model_type st)) =
        trace st @ [WaitIfNeeded ''chat'', Post ''chat'', Sleep (retry_delay st),
                    WaitIfNeeded ''chat'', Post ''chat'']"
    using h by (simp add: make_api_call_request prepared_fields chat_request_throttled)
  show "fst (make_api_call w model_type st) =
        (case chat_service w (Suc (chat_posts st)) of
           Refused \<Rightarrow> Inl ConnectionError
         | Response c2 b2 \<Rightarrow>
             if 400 \<le> c2 \<and> c2 < 600 then Inl (HTTPError c2)
             else (case b2 of None \<Rightarrow> Inl JSONDecodeError | Some r \<Rightarrow> Inr r))"
    using h by (simp add: make_api_call_request prepared_fields chat_request_throttled
          checked_json_def split: http_reply.split)
next
  assume "\<forall>b'. chat_service w' (chat_posts st') \<noteq> Response 429 b'"
  then have n: "\<not> (\<exists>b. chat_service w' (chat_posts st') = Response 429 b)" by simp
  show "chat_posts (snd (make_api_call w' model_type st')) = chat_posts st' + 1"
    using n by (simp add: make_api_call_request prepared_fields chat_request_first)
  show "trace (snd (make_api_call w' model_type st')) =
        trace st' @ [WaitIfNeeded ''chat'', Post ''chat'']"
    using n by (simp add: make_api_call_request prepared_fields chat_request_first)
  show "fst (make_api_call w' model_type st') =
        (case chat_service w' (chat_posts st') of
           Refused \<Rightarrow> Inl ConnectionError
         | Response c1 b1 \<Rightarrow>
             if 400 \<le> c1 \<and> c1 < 600 then Inl (HTTPError c1)
             else (case b1 of None \<Rightarrow> Inl JSONDecodeError | Some r \<Rightarrow> Inr r))"
    using n by (simp add: make_api_call_request prepared_fields chat_request_first
          checked_json_def split: http_reply.split)
next
  assume h: "tts_service w (tts_posts st) = Response 429 d \<and> character seg = Some ch \<and>
    (path_exists w dir \<or> can_makedirs w dir)"
  then have t: "tts_service w (tts_posts st) = Response 429 d" and c: "character seg = Some ch"
    and p: "path_exists w dir \<or> can_makedirs w dir" by simp_all
  show "tts_posts (snd (generate_audio_for_segment w ts seg dir st)) = tts_posts st + 2"
    using t by (simp add: audio_request [OF c p] tts_request_throttled)
  show "trace (snd (generate_audio_for_segment w ts seg dir st)) =
        trace st @ [WaitIfNeeded ''tts'', Post ''tts'', Sleep (retry_delay st),
                    WaitIfNeeded ''tts'', Post ''tts'']"
    using t by (simp add: audio_request [OF c p] tts_request_throttled)
  show "fst (generate_audio_for_segment w ts seg dir st) =
        (case tts_service w (Suc (tts_posts st)) of
           Refused \<Rightarrow> Inr (None, seg)
         | Response c2 b2 \<Rightarrow>
             if 400 \<le> c2 \<and> c2 < 600 then Inr (None, seg)
             else (case b2 of
                     None \<Rightarrow> Inr (None, seg)
                   | Some result \<Rightarrow>
                       (case data result of
                          None \<Rightarrow> Inr (None, seg)
                        | Some a \<Rightarrow>
                            (case a ''audio'' of
                               None \<Rightarrow> Inr (None, seg)
                             | Some audio_hex \<Rightarrow>
                                 (case fromhex audio_hex of
                                    None \<Rightarrow> Inr (None, seg)
                                  | Some audio_bytes \<Rightarrow>
                                      if can_write w
                                           (dir @ ''/'' @ name ch @ ''_'' @ str_int ts @ ''.mp3'')
                                      then Inr (Some (dir @ ''/'' @ name ch @ ''_'' @ str_int ts
                                                        @ ''.mp3''),
                                                seg\<lparr>audio_file :=
                                                  Some (dir @ ''/'' @ name ch @ ''_''
                                                          @ str_int ts @ ''.mp3'')\<rparr>)
                                      else Inr (None, seg))))))"
    using t by (cases "tts_service w (Suc (tts_posts st))")
      (simp_all add: audio_result [OF c p] tts_request_throttled checked_json_def
         split: option.split)
next
  assume h: "(\<forall>d'. tts_service w' (tts_posts st') \<noteq> Response 429 d') \<and>
    character seg = Some ch \<and> (path_exists w' dir \<or> can_makedirs w' dir)"
  then have n: "\<not> (\<exists>b. tts_service w' (tts_posts st') = Response 429 b)"
    and c: "character seg = Some ch"
    and p: "path_exists w' dir \<or> can_makedirs w' dir" by simp_all
  show "tts_posts (snd (generate_audio_for_segment w' ts seg dir st')) = tts_posts st' + 1"
    using n by (simp add: audio_request [OF c p] tts_request_first)
  show "trace (snd (generate_audio_for_segment w' ts seg dir st')) =
        trace st' @ [WaitIfNeeded ''tts'', Post ''tts'']"
    using n by (simp add: audio_request [OF c p] tts_request_first)
  show "fst (generate_audio_for_segment w' ts seg dir st') =
        (case tts_service w' (tts_posts st') of
           Refused \<Rightarrow> Inr (None, seg)
         | Response c1 b1 \<Rightarrow>
             if 400 \<le> c1 \<and> c1 < 600 then Inr (None, seg)
             else (case b1 of
                     None \<Rightarrow> Inr (None, seg)
                   | Some result \<Rightarrow>
                       (case data result of
                          None \<Rightarrow> Inr (None, seg)
                        | Some a \<Rightarrow>
                            (case a ''audio'' of
                               None \<Rightarrow> Inr (None, seg)
                             | Some audio_hex \<Rightarrow>
                                 (case fromhex audio_hex of
                                    None \<Rightarrow> Inr (None, seg)
                                  | Some audio_bytes \<Rightarrow>
                                      if can_write w'
                                           (dir @ ''/'' @ name ch @ ''_'' @ str_int ts @ ''.mp3'')
                                      then Inr (Some (dir @ ''/'' @ name ch @ ''_'' @ str_int ts
                                                        @ ''.mp3''),
                                                seg\<lparr>audio_file :=
                                                  Some (dir @ ''/'' @ name ch @ ''_''
                                                          @ str_int ts @ ''.mp3'')\<rparr>)
                                      else Inr (None, seg))))))"
    using n by (cases "tts_service w' (tts_posts st')")
      (simp_all add: audio_result [OF c p] tts_request_first checked_json_def
         split: option.split)
qed

text \<open>
  C3, witness: a throttled generation call whose retry gets status 500 makes two attempts
  and raises that failure; a throttled synthesis call whose retry succeeds makes two
  attempts and returns the file; a first reply of status 500, a refused connection, and a
  reply 200 that is not JSON each give one attempt and the failure.
\<close>

theorem retry_exactly_once_witness:
  "chat_posts (snd (make_api_call throttle_world ''story_generation'' init_teller)) = 2 \<and>
   trace (snd (make_api_call throttle_world ''story_generation'' init_teller)) =
     [WaitIfNeeded ''chat'', Post ''chat'', Sleep 60, WaitIfNeeded ''chat'', Post ''chat''] \<and>
   fst (make_api_call throttle_world ''story_generation'' init_teller) = Inl (HTTPError 500) \<and>
   chat_posts (snd (make_api_call failing_world ''story_generation'' init_teller)) = 1 \<and>
   fst (make_api_call failing_world ''story_generation'' init_teller) = Inl (HTTPError 500) \<and>
   tts_posts (snd (generate_audio_for_segment throttle_world 0 kael_segment ''audio_output''
      init_teller)) = 2 \<and>
   fst (generate_audio_for_segment throttle_world 0 kael_segment ''audio_output'' init_teller) =
     Inr (Some ''audio_output/Kael_0.mp3'',
          kael_segment\<lparr>audio_file := Some ''audio_output/Kael_0.mp3''\<rparr>) \<and>
   tts_posts (snd (generate_audio_for_segment failing_world 0 kael_segment ''audio_output''
      init_teller)) = 1 \<and>
   fst (generate_audio_for_segment failing_world 0 kael_segment ''audio_output'' init_teller) =
     Inr (None, kael_segment) \<and>
   chat_posts (snd (make_api_call garbled_world ''story_generation'' init_teller)) = 1 \<and>
   fst (make_api_call garbled_world ''story_generation'' init_teller) = Inl JSONDecodeError \<and>
   tts_posts (snd (generate_audio_for_segment garbled_world 0 kael_segment ''audio_output''
      init_teller)) = 1 \<and>
   fst (generate_audio_for_segment garbled_world 0 kael_segment ''audio_output'' init_teller) =
     Inr (None, kael_segment)"
  using retry_exactly_once [where w = throttle_world and st = init_teller and b = None
      and model_type = "''story_generation''" and w' = failing_world and st' = init_teller
      and d = None and seg = kael_segment and ch = "the (character kael_segment)"
      and ts = 0 and dir = "''audio_output''"]
    retry_exactly_once [where w = throttle_world and st = init_teller and b = None
      and model_type = "''story_generation''" and w' = garbled_world and st' = init_teller
      and d = None and seg = kael_segment and ch = "the (character kael_segment)"
      and ts = 0 and dir = "''audio_output''"]
  by (simp add: throttle_world_def failing_world_def garbled_world_def quiet_world_def
        init_teller_def kael_segment_def str_int_def str_nat.simps hex_value_def
        ascii_space_def)

section \<open>Failures of story generation\<close>

lemma generate_story_failure:
  "fst (generate_story_try w st) = Inl e \<Longrightarrow> fst (generate_story w st) = None"
  by (cases "generate_story_try w st") (simp add: generate_story_def)

lemma generate_story_try_result:
  "fst (make_api_call w ''story_generation'' st) = Inr r \<Longrightarrow>
   fst (generate_story_try w st) = story_of_result r"
  by (cases "make_api_call w ''story_generation'' st")
     (simp add: generate_story_try_def split: sum.split)

text \<open>
  C6, as amended: when the response has empty (or blank) content in its first choice,
  \<open>finish_reason\<close> \<open>length\<close>, and no story in \<open>reasoning_content\<close>, the body of
  \<open>generate_story\<close> raises an exception whose message names the token limit. It is not
  the exception that the body raises for empty content with another finish reason, nor
  the one it raises for a response without choices. In all three cases the handler prints
  the exception and \<open>generate_story\<close> returns \<open>None\<close>.
\<close>

theorem token_limit_raised_then_none:
  assumes "fst (make_api_call w ''story_generation'' st) = Inr r"
    and "choices r = Some (c # rest)"
    and "message c = Some m"
    and "m ''content'' = Some s"
    and "strip s = []"
    and "finish_reason c = Some ''length''"
    and "story_from_reasoning m = None"
    and "fst (make_api_call w2 ''story_generation'' st2) = Inr r2"
    and "choices r2 = Some (c2 # rest2)"
    and "message c2 = Some m2"
    and "m2 ''content'' = Some s2"
    and "strip s2 = []"
    and "finish_reason c2 \<noteq> Some ''length''"
    and "story_from_reasoning m2 = None"
    and "fst (make_api_call w3 ''story_generation'' st3) = Inr r3"
    and "choices r3 = None \<or> choices r3 = Some []"
  shows "fst (generate_story_try w st) = Inl (PyException token_limit_message) \<and>
     fst (generate_story_try w st) \<noteq> fst (generate_story_try w2 st2) \<and>
     fst (generate_story_try w st) \<noteq> fst (generate_story_try w3 st3) \<and>
     fst (generate_story w st) = None \<and>
     fst (generate_story w2 st2) = None \<and>
     fst (generate_story w3 st3) = None"
proof -
  have raised: "fst (generate_story_try w st) = Inl (PyException token_limit_message)"
    using assms(1-7) by (simp add: generate_story_try_result story_of_result_def)
  have empty: "fst (generate_story_try w2 st2) = Inl (PyException ''Story content is empty'')"
    using assms(8-14)
    by (cases "finish_reason c2")
       (simp_all add: generate_story_try_result story_of_result_def token_limit_message_def)
  have none: "fst (generate_story_try w3 st3) = Inl (PyException ''No story generated'')"
    using assms(15-16) by (auto simp add: generate_story_try_result story_of_result_def)
  have "fst (generate_story_try w st) \<noteq> fst (generate_story_try w2 st2)"
    and "fst (generate_story_try w st) \<noteq> fst (generate_story_try w3 st3)"
    by (simp_all add: raised empty none token_limit_message_def)
  with raised generate_story_failure [OF raised] generate_story_failure [OF empty]
    generate_story_failure [OF none]
  show ?thesis by simp
qed

lemma reply_world_call:
  "fst (make_api_call (reply_world r) mt init_teller) = Inr r"
  by (simp add: make_api_call_def Let_def request_with_retry_def post_chat_def log_event_def
        checked_json_def reply_world_def quiet_world_def init_teller_def)

text \<open>
  C6, witness: a response with empty content and finish reason \<open>length\<close>, one with
  empty content and finish reason \<open>stop\<close>, and one without choices.
\<close>

theorem token_limit_raised_then_none_witness:
  "fst (generate_story_try (reply_world length_result) init_teller) =
     Inl (PyException token_limit_message) \<and>
   fst (generate_story_try (reply_world length_result) init_teller) \<noteq>
     fst (generate_story_try (reply_world empty_result) init_teller) \<and>
   fst (generate_story_try (reply_world length_result) init_teller) \<noteq>
     fst (generate_story_try (reply_world no_choices_result) init_teller) \<and>
   fst (generate_story (reply_world length_result) init_teller) = None \<and>
   fst (generate_story (reply_world empty_result) init_teller) = None \<and>
   fst (generate_story (reply_world no_choices_result) init_teller) = None"
proof -
  have l: "choices length_result =
      Some [\<lparr>message = Some (map_of [(''content'', [])]), finish_reason = Some ''length''\<rparr>]"
    and e: "choices empty_result =
      Some [\<lparr>message = Some (map_of [(''content'', [])]), finish_reason = Some ''stop''\<rparr>]"
    and n: "choices no_choices_result = None \<or> choices no_choices_result = Some []"
    by (simp_all add: length_result_def empty_result_def no_choices_result_def)
  have m: "map_of [(''content'', [])] ''content'' = Some ([] :: string)"
    and s: "strip [] = []"
    and f: "story_from_reasoning (map_of [(''content'', [])]) = None"
    by (simp_all add: strip_def story_from_reasoning_def)
  have lm: "message \<lparr>message = Some (map_of [(''content'', [])]),
        finish_reason = Some ''length''\<rparr> = Some (map_of [(''content'', [])])"
    and lf: "finish_reason \<lparr>message = Some (map_of [(''content'', [])]),
        finish_reason = Some ''length''\<rparr> = Some ''length''"
    and em: "message \<lparr>message = Some (map_of [(''content'', [])]),
        finish_reason = Some ''stop''\<rparr> = Some (map_of [(''content'', [])])"
    and ef: "finish_reason \<lparr>message = Some (map_of [(''content'', [])]),
        finish_reason = Some ''stop''\<rparr> \<noteq> Some ''length''"
    by simp_all
  show ?thesis
    by (rule token_limit_raised_then_none [OF reply_world_call l lm m s lf f
        reply_world_call e em m s ef f reply_world_call n])
qed

text \<open>
  C6, counterexample: for a token-limit response, for a response with empty content and
  another finish reason, and for a response without choices, \<open>generate_story\<close> gives its
  caller the same value \<open>None\<close> and leaves the orchestrator in the same state.
\<close>

theorem token_limit_counterexample:
  "generate_story (reply_world length_result) init_teller =
     generate_story (reply_world empty_result) init_teller \<and>
   generate_story (reply_world length_result) init_teller =
     generate_story (reply_world no_choices_result) init_teller \<and>
   fst (generate_story (reply_world length_result) init_teller) = None"
  by (simp add: generate_story_def generate_story_try_def make_api_call_def Let_def
        request_with_retry_def post_chat_def log_event_def checked_json_def reply_world_def
        quiet_world_def init_teller_def story_of_result_def length_result_def empty_result_def
        no_choices_result_def strip_def story_from_reasoning_def record_usage_def
        MODELS_def dict_get_def empty_stats_def)

section \<open>Synthesis and the ledger\<close>

lemma synthesis_keeps_ledger:
  "api_usage_stats (snd (generate_audio_for_segment w ts seg dir st)) = api_usage_stats st"
  by (simp add: generate_audio_for_segment_def Let_def request_with_retry_def post_tts_def
        log_event_def split: option.split http_reply.split sum.split prod.split)

text \<open>
  C8: a synthesis call that succeeds on a new orchestrator returns the file name and sets
  it in the segment, and the orchestrator still has no usage ledger: no call, no
  character and no cost is recorded.
\<close>

theorem synthesis_not_tracked:
  "fst (generate_audio_for_segment audio_world 0 kael_segment ''audio_output'' init_teller) =
     Inr (Some ''audio_output/Kael_0.mp3'',
          kael_segment\<lparr>audio_file := Some ''audio_output/Kael_0.mp3''\<rparr>) \<and>
   api_usage_stats
     (snd (generate_audio_for_segment audio_world 0 kael_segment ''audio_output'' init_teller)) =
     None"
  by (simp add: generate_audio_for_segment_def Let_def request_with_retry_def post_tts_def
        log_event_def checked_json_def audio_world_def quiet_world_def kael_segment_def init_teller_def
        str_int_def str_nat.simps hex_value_def ascii_space_def)

section \<open>The window of the rate limiter\<close>

lemma fold_min_in: "fold min xs (a::rat) \<in> insert a (set xs)"
  by (induction xs arbitrary: a) (auto simp: min_def)

lemma list_min_in: "xs \<noteq> [] \<Longrightarrow> list_min xs \<in> set xs"
  using fold_min_in [of "tl xs" "hd xs"] by (cases xs) (auto simp: list_min_def)

lemma pruned_recent:
  assumes "list_all (\<lambda>t. t \<le> now) ts"
  shows "length (filter (\<lambda>t. now - t < 60) ts) \<le> length (recent ts)"
proof (cases "ts = []")
  case True
  then show ?thesis by (simp add: recent_def)
next
  case False
  then have "last ts \<le> now" using assms by (simp add: list_all_iff)
  then have "filter (\<lambda>t. now - t < 60) ts = filter (\<lambda>t. now - t < 60) (recent ts)"
    by (auto simp add: recent_def intro!: filter_cong)
  then show ?thesis by (metis length_filter_le)
qed

text \<open>
  C5, as amended: on a limiter with a limit of at least 1 whose window is within the bound
  and holds no timestamp later than the time read on entry, and with a sleep that lasts
  at least the time asked for, \<open>wait_if_needed\<close> returns, the window holds at most
  limit + 1 timestamps, and at most limit of them lie within the 60 seconds before the
  newest one; the bound holds again for the next call.
\<close>

theorem wait_if_needed_window_bound:
  assumes rpm: "1 \<le> requests_per_minute rl"
    and ok: "window_ok rl"
    and past: "list_all (\<lambda>t. t \<le> now) (request_times rl)"
    and lag: "0 \<le> lag"
  shows "case wait_if_needed now lag rl of
           Inl e \<Rightarrow> False
         | Inr (rl', sleeps) \<Rightarrow>
             int (length (request_times rl')) \<le> requests_per_minute rl + 1 \<and>
             int (length (recent (request_times rl'))) \<le> requests_per_minute rl \<and>
             requests_per_minute rl' = requests_per_minute rl \<and> window_ok rl'"
proof -
  define pruned where "pruned = filter (\<lambda>t. now - t < 60) (request_times rl)"
  have len: "int (length pruned) \<le> requests_per_minute rl"
    using pruned_recent [OF past] ok by (simp add: pruned_def window_ok_def)
  have pruned_past: "\<And>t. t \<in> set pruned \<Longrightarrow> t \<le> now"
    using past by (auto simp: pruned_def list_all_iff)
  show ?thesis
  proof (cases "requests_per_minute rl \<le> int (length pruned)")
    case False
    then have res: "wait_if_needed now lag rl =
        Inr (rl\<lparr>request_times := pruned @ [now]\<rparr>,
             (if 1 < length (pruned @ [now]) then
                (let time_since_last = now - (pruned @ [now]) ! (length (pruned @ [now]) - 2)
                 in if time_since_last < min_interval rl
                    then [min_interval rl - time_since_last] else [])
              else []))"
      by (simp add: wait_if_needed_def Let_def pruned_def [symmetric])
    have "length (recent (pruned @ [now])) \<le> length (pruned @ [now])"
      by (simp add: recent_def)
    moreover have "int (length (pruned @ [now])) \<le> requests_per_minute rl"
      using False by simp
    ultimately have "int (length (recent (pruned @ [now]))) \<le> requests_per_minute rl"
      by linarith
    moreover have "list_all (\<lambda>t. t \<le> now) pruned"
      using pruned_past by (simp add: list_all_iff)
    ultimately show ?thesis
      using False by (simp add: res window_ok_def)
  next
    case True
    then have ne: "pruned \<noteq> []" using rpm by auto
    have oldest: "list_min pruned \<in> set pruned" using ne by (rule list_min_in)
    then have young: "now - list_min pruned < 60" by (simp add: pruned_def)
    define after where "after = now + (60 - (now - list_min pruned) + 1) + lag"
    have aft: "list_min pruned + 61 \<le> after"
      using lag by (simp add: after_def)
    have later: "now \<le> after" using aft young by linarith
    have res: "wait_if_needed now lag rl =
        Inr (rl\<lparr>request_times := pruned @ [after]\<rparr>,
             [60 - (now - list_min pruned) + 1] @
             (if 1 < length (pruned @ [after]) then
                (let time_since_last = after - (pruned @ [after]) ! (length (pruned @ [after]) - 2)
                 in if time_since_last < min_interval rl
                    then [min_interval rl - time_since_last] else [])
              else []))"
      using True ne young
      by (simp add: wait_if_needed_def Let_def pruned_def [symmetric] after_def)
    have "\<not> (after - list_min pruned < 60)" using aft by linarith
    then have "length (filter (\<lambda>t. after - t < 60) pruned) < length pruned"
      using oldest by (rule length_filter_less [rotated])
    then have rec: "int (length (recent (pruned @ [after]))) \<le> requests_per_minute rl"
      using len by (simp add: recent_def)
    have "list_all (\<lambda>t. t \<le> after) pruned"
      using pruned_past later by (force simp add: list_all_iff intro: order_trans)
    then show ?thesis
      using len rec by (simp add: res window_ok_def)
  qed
qed

text \<open>
  C5, witness: with two requests per minute and requests at 0 and 30, a call at 31 sleeps
  30 seconds and records 61; of the three timestamps two are within the last 60 seconds.
\<close>

theorem wait_if_needed_window_bound_witness:
  "wait_if_needed 31 0 (two_per_minute\<lparr>request_times := [0, 30]\<rparr>) =
     Inr (two_per_minute\<lparr>request_times := [0, 30, 61]\<rparr>, [30]) \<and>
   window_ok (two_per_minute\<lparr>request_times := [0, 30, 61]\<rparr>) \<and>
   recent [0, 30, 61] = [30, 61]"
  using wait_if_needed_window_bound [of "two_per_minute\<lparr>request_times := [0, 30]\<rparr>" 31 0]
  by (simp add: two_per_minute_def window_ok_def recent_def wait_if_needed_def list_min_def Let_def)

text \<open>
  C5, counterexample: a limiter of two requests per minute, called at 0, 30 and 31 with
  sleeps of exactly the time asked for, returns from the third call with three timestamps
  in its window; and called at 0 and 1
  it stores 0 and 1, which are less than the minimum interval of 30 seconds apart.
\<close>

theorem wait_if_needed_counterexample:
  "new_RateLimiter 2 = Inr two_per_minute \<and>
   wait_if_needed 0 0 two_per_minute = Inr (two_per_minute\<lparr>request_times := [0]\<rparr>, []) \<and>
   wait_if_needed 30 0 (two_per_minute\<lparr>request_times := [0]\<rparr>) =
     Inr (two_per_minute\<lparr>request_times := [0, 30]\<rparr>, []) \<and>
   wait_if_needed 31 0 (two_per_minute\<lparr>request_times := [0, 30]\<rparr>) =
     Inr (two_per_minute\<lparr>request_times := [0, 30, 61]\<rparr>, [30]) \<and>
   \<not> int (length [0, 30, 61 :: rat]) \<le> requests_per_minute two_per_minute \<and>
   wait_if_needed 1 0 (two_per_minute\<lparr>request_times := [0]\<rparr>) =
     Inr (two_per_minute\<lparr>request_times := [0, 1]\<rparr>, [29]) \<and>
   \<not> min_interval two_per_minute \<le> 1 - 0"
  by (simp add: new_RateLimiter_def two_per_minute_def wait_if_needed_def list_min_def Let_def)

section \<open>The voice cache\<close>

lemma request_frame:
  "retry_delay (snd (request_with_retry l (post_chat w) st)) = retry_delay st"
  "characters (snd (request_with_retry l (post_chat w) st)) = characters st"
  "story_segments (snd (request_with_retry l (post_chat w) st)) = story_segments st"
  "current_story (snd (request_with_retry l (post_chat w) st)) = current_story st"
  "name_voice_cache (snd (request_with_retry l (post_chat w) st)) = name_voice_cache st"
  "api_usage_stats (snd (request_with_retry l (post_chat w) st)) = api_usage_stats st"
  "name_analysis_cache (snd (request_with_retry l (post_chat w) st)) = name_analysis_cache st"
  "voice_selection_index (snd (request_with_retry l (post_chat w) st)) = voice_selection_index st"
  "tts_posts (snd (request_with_retry l (post_chat w) st)) = tts_posts st"
  by (simp_all add: request_with_retry_def post_chat_def log_event_def Let_def
        split: http_reply.split)

lemma make_api_call_state:
  "\<exists>st1 res stats. (st1 = st \<or> st1 = st\<lparr>api_usage_stats := Some empty_stats\<rparr>) \<and>
     (snd (make_api_call w mt st) = snd (request_with_retry ''chat'' (post_chat w) st1) \<or>
      snd (make_api_call w mt st) =
        (snd (request_with_retry ''chat'' (post_chat w) st1))\<lparr>api_usage_stats := stats\<rparr>)"
proof -
  define st1 where "st1 = (case api_usage_stats st of
      None \<Rightarrow> st\<lparr>api_usage_stats := Some empty_stats\<rparr> | Some s \<Rightarrow> st)"
  have a: "st1 = st \<or> st1 = st\<lparr>api_usage_stats := Some empty_stats\<rparr>"
    by (simp add: st1_def split: option.split)
  obtain res st2 where r: "request_with_retry ''chat'' (post_chat w) st1 = (res, st2)"
    by (cases "request_with_retry ''chat'' (post_chat w) st1")
  have "snd (make_api_call w mt st) = st2 \<or>
        (\<exists>stats. snd (make_api_call w mt st) = st2\<lparr>api_usage_stats := stats\<rparr>)"
    using r by (cases res) (auto simp add: make_api_call_def Let_def st1_def [symmetric])
  with a r show ?thesis by (metis snd_conv)
qed

lemma make_api_call_frame:
  "retry_delay (snd (make_api_call w mt st)) = retry_delay st"
  "characters (snd (make_api_call w mt st)) = characters st"
  "story_segments (snd (make_api_call w mt st)) = story_segments st"
  "current_story (snd (make_api_call w mt st)) = current_story st"
  "name_voice_cache (snd (make_api_call w mt st)) = name_voice_cache st"
  "name_analysis_cache (snd (make_api_call w mt st)) = name_analysis_cache st"
  "voice_selection_index (snd (make_api_call w mt st)) = voice_selection_index st"
  "tts_posts (snd (make_api_call w mt st)) = tts_posts st"
  using make_api_call_state [of st w mt] by (auto simp add: request_frame)


lemma analyze_state:
  "\<exists>c. snd (analyze_character_name_with_ai w n st) =
          st\<lparr>name_analysis_cache := Some (analysis_cache st)\<rparr> \<or>
        snd (analyze_character_name_with_ai w n st) =
          snd (make_api_call w ''name_analysis'' (st\<lparr>name_analysis_cache := Some (analysis_cache st)\<rparr>)) \<or>
        snd (analyze_character_name_with_ai w n st) =
          (snd (make_api_call w ''name_analysis'' (st\<lparr>name_analysis_cache := Some (analysis_cache st)\<rparr>)))
            \<lparr>name_analysis_cache := c\<rparr>"
proof -
  define st1 where "st1 = st\<lparr>name_analysis_cache := Some (analysis_cache st)\<rparr>"
  obtain res st2 where r: "make_api_call w ''name_analysis'' st1 = (res, st2)"
    by (cases "make_api_call w ''name_analysis'' st1")
  show ?thesis
    using r unfolding analyze_character_name_with_ai_def Let_def st1_def [symmetric]
    by (auto split: option.split sum.split list.split)
qed

lemma analyze_frame:
  "characters (snd (analyze_character_name_with_ai w n st)) = characters st"
  "story_segments (snd (analyze_character_name_with_ai w n st)) = story_segments st"
  "name_voice_cache (snd (analyze_character_name_with_ai w n st)) = name_voice_cache st"
  "voice_selection_index (snd (analyze_character_name_with_ai w n st)) = voice_selection_index st"
  using analyze_state [of w n st] by (auto simp add: make_api_call_frame)

lemma fallback_is_object: "is_object (fallback_name_analysis n)"
  by (simp add: fallback_name_analysis_def Let_def split_beta is_object_def)

lemma analyze_cases:
  obtains (cached) a where "analysis_cache st (lower n) = Some a"
      and "analyze_character_name_with_ai w n st =
             (a, st\<lparr>name_analysis_cache := Some (analysis_cache st)\<rparr>)"
    | (fallback) "analysis_cache st (lower n) = None"
      and "fst (analyze_character_name_with_ai w n st) = fallback_name_analysis n"
      and "name_analysis_cache (snd (analyze_character_name_with_ai w n st)) =
             Some (analysis_cache st)"
    | (fresh) a s parsed where "analysis_cache st (lower n) = None"
      and "fst (analyze_character_name_with_ai w n st) = a"
      and "name_analysis_cache (snd (analyze_character_name_with_ai w n st)) =
             Some ((analysis_cache st)(lower n \<mapsto> a))"
      and "json_loads w s = Some parsed"
      and "fill_required required_fields parsed = Inr a"
proof -
  define st1 where "st1 = st\<lparr>name_analysis_cache := Some (analysis_cache st)\<rparr>"
  have c1: "analysis_cache st1 = analysis_cache st"
    by (simp add: st1_def analysis_cache_def)
  obtain res st2 where r: "make_api_call w ''name_analysis'' st1 = (res, st2)"
    by (cases "make_api_call w ''name_analysis'' st1")
  have c2: "name_analysis_cache st2 = Some (analysis_cache st)"
    and a2: "analysis_cache st2 = analysis_cache st"
    using make_api_call_frame(6) [of w "''name_analysis''" st1] r
    by (simp_all add: st1_def analysis_cache_def)
  show thesis
  proof (cases "analysis_cache st (lower n)")
    case (Some a)
    then have "analyze_character_name_with_ai w n st = (a, st1)"
      unfolding analyze_character_name_with_ai_def Let_def st1_def [symmetric]
      by (simp add: c1)
    then show thesis using Some cached by (simp add: st1_def)
  next
    case None
    have "(fst (analyze_character_name_with_ai w n st) = fallback_name_analysis n \<and>
           name_analysis_cache (snd (analyze_character_name_with_ai w n st)) =
             Some (analysis_cache st)) \<or>
          (name_analysis_cache (snd (analyze_character_name_with_ai w n st)) =
             Some ((analysis_cache st)(lower n \<mapsto> fst (analyze_character_name_with_ai w n st))) \<and>
           (\<exists>s parsed. json_loads w s = Some parsed \<and>
              fill_required required_fields parsed =
                Inr (fst (analyze_character_name_with_ai w n st))))"
      using None r unfolding analyze_character_name_with_ai_def Let_def st1_def [symmetric]
      by (auto simp add: c1 c2 a2 split: option.split sum.split list.split)
    then show thesis using None fallback fresh by blast
  qed
qed





lemma map_hit:
  "name_voice_cache st n = Some c \<Longrightarrow> map_character_name_to_voice w n st = (Inr c, st)"
  by (simp add: map_character_name_to_voice_def)

lemma map_miss_error:
  assumes "name_voice_cache st n = None"
    and "\<not> is_object (fst (analyze_character_name_with_ai w n st))"
  shows "map_character_name_to_voice w n st =
           (Inl AttributeError, snd (analyze_character_name_with_ai w n st))"
proof -
  obtain a st1 where r: "analyze_character_name_with_ai w n st = (a, st1)"
    by (cases "analyze_character_name_with_ai w n st")
  then have "\<not> is_object a" using assms(2) by simp
  then show ?thesis
    using assms(1) r
    by (cases a) (simp_all add: map_character_name_to_voice_def is_object_def)
qed

lemma map_miss:
  assumes "name_voice_cache st n = None"
    and "fst (analyze_character_name_with_ai w n st) = JObj d"
  obtains c where "fst (map_character_name_to_voice w n st) = Inr c"
    and "name c = n"
    and "voice_id c =
           available_voices (voice_category_of d)
             ! (dict_get (selection_index st) (voice_category_of d) 0
                mod length (available_voices (voice_category_of d)))"
    and "name_voice_cache (snd (map_character_name_to_voice w n st)) =
           (name_voice_cache st)(n \<mapsto> c)"
    and "selection_index (snd (map_character_name_to_voice w n st)) =
           (selection_index st)
             (voice_category_of d \<mapsto> dict_get (selection_index st) (voice_category_of d) 0 + 1)"
    and "characters (snd (map_character_name_to_voice w n st)) = characters st"
    and "chat_posts (snd (map_character_name_to_voice w n st)) =
           chat_posts (snd (analyze_character_name_with_ai w n st))"
    and "name_analysis_cache (snd (map_character_name_to_voice w n st)) =
           name_analysis_cache (snd (analyze_character_name_with_ai w n st))"
proof -
  obtain a st1 where r: "analyze_character_name_with_ai w n st = (a, st1)"
    by (cases "analyze_character_name_with_ai w n st")
  have a: "a = JObj d" using assms(2) r by simp
  have f: "name_voice_cache st1 = name_voice_cache st"
    "voice_selection_index st1 = voice_selection_index st"
    "characters st1 = characters st"
    using analyze_frame [of w n st] r by simp_all
  obtain c where c: "fst (map_character_name_to_voice w n st) = Inr c"
    using assms(1) r a by (simp add: map_character_name_to_voice_def Let_def)
  show thesis
  proof (rule that [of c])
    show "fst (map_character_name_to_voice w n st) = Inr c" by (rule c)
    show "name c = n"
      using c assms(1) r a by (auto simp add: map_character_name_to_voice_def Let_def)
    show "voice_id c =
           available_voices (voice_category_of d)
             ! (dict_get (selection_index st) (voice_category_of d) 0
                mod length (available_voices (voice_category_of d)))"
      using c assms(1) r a f
      by (auto simp add: map_character_name_to_voice_def Let_def selection_index_def)
    show "name_voice_cache (snd (map_character_name_to_voice w n st)) =
           (name_voice_cache st)(n \<mapsto> c)"
      using c assms(1) r a f by (auto simp add: map_character_name_to_voice_def Let_def)
    show "selection_index (snd (map_character_name_to_voice w n st)) =
           (selection_index st)
             (voice_category_of d \<mapsto> dict_get (selection_index st) (voice_category_of d) 0 + 1)"
      using assms(1) r a f
      by (simp add: map_character_name_to_voice_def Let_def selection_index_def)
    show "characters (snd (map_character_name_to_voice w n st)) = characters st"
      using assms(1) r a f by (simp add: map_character_name_to_voice_def Let_def)
    show "chat_posts (snd (map_character_name_to_voice w n st)) =
           chat_posts (snd (analyze_character_name_with_ai w n st))"
      using assms(1) r a by (simp add: map_character_name_to_voice_def Let_def)
    show "name_analysis_cache (snd (map_character_name_to_voice w n st)) =
           name_analysis_cache (snd (analyze_character_name_with_ai w n st))"
      using assms(1) r a by (simp add: map_character_name_to_voice_def Let_def)
  qed
qed

lemma object_cases:
  obtains d where "a = JObj d" | "\<not> is_object a"
  by (cases a) (simp_all add: is_object_def)










lemma failing_world_call:
  "fst (make_api_call failing_world mt st) = Inl (HTTPError 500)"
  "chat_posts (snd (make_api_call failing_world mt st)) = Suc (chat_posts st)"
  by (simp_all add: make_api_call_def Let_def request_with_retry_def post_chat_def log_event_def
      checked_json_def failing_world_def quiet_world_def split: option.split)

lemma failing_world_analyze:
  "name_analysis_cache st \<in> {None, Some Map.empty} \<Longrightarrow>
   fst (analyze_character_name_with_ai failing_world n st) = fallback_name_analysis n \<and>
   name_analysis_cache (snd (analyze_character_name_with_ai failing_world n st)) = Some Map.empty \<and>
   chat_posts (snd (analyze_character_name_with_ai failing_world n st)) = Suc (chat_posts st)"
proof -
  assume a: "name_analysis_cache st \<in> {None, Some Map.empty}"
  define st1 where "st1 = st\<lparr>name_analysis_cache := Some (analysis_cache st)\<rparr>"
  have c: "analysis_cache st = Map.empty" using a by (auto simp: analysis_cache_def)
  obtain res st2 where r: "make_api_call failing_world ''name_analysis'' st1 = (res, st2)"
    by (cases "make_api_call failing_world ''name_analysis'' st1")
  have "res = Inl (HTTPError 500)" "chat_posts st2 = Suc (chat_posts st1)"
    "name_analysis_cache st2 = name_analysis_cache st1"
    using failing_world_call [of "''name_analysis''" st1]
      make_api_call_frame(6) [of failing_world "''name_analysis''" st1] r by simp_all
  then show ?thesis
    using r c unfolding analyze_character_name_with_ai_def Let_def st1_def [symmetric]
    by (simp add: st1_def analysis_cache_def)
qed




section \<open>Round robin within a category\<close>

lemma pool_distinct: "distinct (available_voices cat)"
  by (simp add: available_voices_def dict_get_def english_voices_def male_voices_def)

lemma pool_nonempty: "available_voices cat \<noteq> []"
  by (simp add: available_voices_def dict_get_def english_voices_def male_voices_def)

lemma round_robin_rotate:
  assumes "xs \<noteq> []"
  shows "map (\<lambda>k. xs ! ((i + k) mod length xs)) [0..<length xs] = rotate i xs"
  by (rule nth_equalityI) (simp_all add: nth_rotate)

lemma not_object_case:
  "\<not> is_object a \<Longrightarrow>
   (case a of JNull \<Rightarrow> r | JBool b \<Rightarrow> r | JNum x \<Rightarrow> r | JStr s \<Rightarrow> r | JArr xs \<Rightarrow> r
      | JObj d \<Rightarrow> f d) = r"
  by (cases a) (simp_all add: is_object_def)

lemma new_voices_cycle:
  "map voice_id (new_in_category w cat ns st) =
     map (\<lambda>k. available_voices cat !
            ((dict_get (selection_index st) cat 0 + k) mod length (available_voices cat)))
       [0..<length (new_in_category w cat ns st)]"
proof (induction ns arbitrary: st)
  case Nil
  then show ?case by simp
next
  case (Cons n ns)
  define st' where "st' = snd (map_character_name_to_voice w n st)"
  note IH = Cons.IH [of st']
  show ?case
  proof (cases "name_voice_cache st n")
    case (Some c)
    then have "st' = st" by (simp add: st'_def map_hit)
    with IH Some show ?thesis by (simp add: st'_def [symmetric])
  next
    case None
    show ?thesis
    proof (cases rule: object_cases [of "fst (analyze_character_name_with_ai w n st)"])
      case 2
      have "st' = snd (analyze_character_name_with_ai w n st)"
        by (simp add: st'_def map_miss_error [OF None 2])
      then have "selection_index st' = selection_index st"
        by (simp add: selection_index_def analyze_frame)
      with IH None show ?thesis
        by (simp add: st'_def [symmetric] not_object_case [OF 2])
    next
      case (1 d)
      obtain c where c: "fst (map_character_name_to_voice w n st) = Inr c"
        and v: "voice_id c =
           available_voices (voice_category_of d)
             ! (dict_get (selection_index st) (voice_category_of d) 0
                mod length (available_voices (voice_category_of d)))"
        and idx: "selection_index st' =
           (selection_index st)
             (voice_category_of d \<mapsto> dict_get (selection_index st) (voice_category_of d) 0 + 1)"
        unfolding st'_def by (rule map_miss [OF None 1])
      show ?thesis
      proof (cases "voice_category_of d = cat")
        case False
        then have "dict_get (selection_index st') cat 0 = dict_get (selection_index st) cat 0"
          by (simp add: idx dict_get_def)
        with IH None False show ?thesis
          by (simp add: st'_def [symmetric] 1)
      next
        case True
        have i': "dict_get (selection_index st') cat 0 =
            Suc (dict_get (selection_index st) cat 0)"
          using True by (simp add: idx dict_get_def)
        show ?thesis
          using IH None True v
          by (simp add: st'_def [symmetric] 1 c i' map_upt_Suc del: upt_Suc)
      qed
    qed
  qed
qed

text \<open>
  C7: in any session, when a category has had as many new names as its pool has voices,
  the first of them, as many as the pool has, got pairwise distinct voices, which are
  all the voices of the pool. A cache hit returns the cached profile and changes nothing,
  the index included; the resolution of a new name whose analysis is a dictionary advances
  the index of its category by one and no other index, and the resolution of a new name
  whose analysis is not a dictionary raises and leaves every index as it is.
\<close>

theorem round_robin_coverage:
  "(length (available_voices cat) \<le> length (new_in_category w cat ns st) \<longrightarrow>
      distinct (take (length (available_voices cat))
                  (map voice_id (new_in_category w cat ns st))) \<and>
      set (take (length (available_voices cat))
             (map voice_id (new_in_category w cat ns st))) = set (available_voices cat)) \<and>
   (name_voice_cache st1 n1 = Some c \<longrightarrow>
      map_character_name_to_voice w n1 st1 = (Inr c, st1)) \<and>
   (name_voice_cache st2 n2 = None \<longrightarrow>
      (\<forall>d. fst (analyze_character_name_with_ai w n2 st2) = JObj d \<longrightarrow>
         selection_index (snd (map_character_name_to_voice w n2 st2)) =
           (selection_index st2)
             (voice_category_of d \<mapsto> dict_get (selection_index st2) (voice_category_of d) 0 + 1)) \<and>
      (\<not> is_object (fst (analyze_character_name_with_ai w n2 st2)) \<longrightarrow>
         fst (map_character_name_to_voice w n2 st2) = Inl AttributeError \<and>
         selection_index (snd (map_character_name_to_voice w n2 st2)) = selection_index st2))"
proof (intro conjI impI allI)
  assume len: "length (available_voices cat) \<le> length (new_in_category w cat ns st)"
  define P where "P = length (available_voices cat)"
  define i where "i = dict_get (selection_index st) cat 0"
  have "take P (map voice_id (new_in_category w cat ns st)) =
      map (\<lambda>k. available_voices cat ! ((i + k) mod P))
        (take P [0..<length (new_in_category w cat ns st)])"
    by (subst new_voices_cycle) (simp add: take_map P_def i_def)
  also have "take P [0..<length (new_in_category w cat ns st)] = [0..<P]"
    using len by (simp add: P_def)
  also have "map (\<lambda>k. available_voices cat ! ((i + k) mod P)) [0..<P] =
      rotate i (available_voices cat)"
    unfolding P_def by (rule round_robin_rotate) (rule pool_nonempty)
  finally have eq: "take P (map voice_id (new_in_category w cat ns st)) =
      rotate i (available_voices cat)" .
  show "distinct (take (length (available_voices cat))
                  (map voice_id (new_in_category w cat ns st)))"
    using eq pool_distinct [of cat] by (simp add: P_def)
  show "set (take (length (available_voices cat))
             (map voice_id (new_in_category w cat ns st))) = set (available_voices cat)"
    using eq by (simp add: P_def)
next
  assume "name_voice_cache st1 n1 = Some c"
  then show "map_character_name_to_voice w n1 st1 = (Inr c, st1)" by (rule map_hit)
next
  fix d
  assume m: "name_voice_cache st2 n2 = None"
    and d: "fst (analyze_character_name_with_ai w n2 st2) = JObj d"
  show "selection_index (snd (map_character_name_to_voice w n2 st2)) =
           (selection_index st2)
             (voice_category_of d \<mapsto> dict_get (selection_index st2) (voice_category_of d) 0 + 1)"
    by (rule map_miss [OF m d])
next
  assume m: "name_voice_cache st2 n2 = None"
    and o: "\<not> is_object (fst (analyze_character_name_with_ai w n2 st2))"
  show "fst (map_character_name_to_voice w n2 st2) = Inl AttributeError"
    by (simp add: map_miss_error [OF m o])
  show "selection_index (snd (map_character_name_to_voice w n2 st2)) = selection_index st2"
    by (simp add: map_miss_error [OF m o] selection_index_def analyze_frame)
qed

lemma fallback_villains:
  "\<exists>d. fallback_name_analysis ''Shadow'' = JObj d \<and> voice_category_of d = ''villain''"
  "\<exists>d. fallback_name_analysis ''Darkon'' = JObj d \<and> voice_category_of d = ''villain''"
  "\<exists>d. fallback_name_analysis ''Grimm'' = JObj d \<and> voice_category_of d = ''villain''"
  by (simp_all add: fallback_name_analysis_def Let_def lower_def lower_char_def uppercase_def
        lowercase_def contains_def find_def endswith_def voice_category_of_def dict_get_def)

lemma failing_world_step:
  assumes "name_analysis_cache st \<in> {None, Some Map.empty}"
    and "name_voice_cache st n = None"
    and "fallback_name_analysis n = JObj d"
  obtains c where "fst (analyze_character_name_with_ai failing_world n st) = JObj d"
    and "fst (map_character_name_to_voice failing_world n st) = Inr c"
    and "name_voice_cache (snd (map_character_name_to_voice failing_world n st)) =
           (name_voice_cache st)(n \<mapsto> c)"
    and "name_analysis_cache (snd (map_character_name_to_voice failing_world n st)) \<in>
           {None, Some Map.empty}"
proof -
  have a: "fst (analyze_character_name_with_ai failing_world n st) = JObj d"
    using failing_world_analyze [OF assms(1), of n] assms(3) by simp
  show thesis
    using failing_world_analyze [OF assms(1), of n]
    by (rule_tac map_miss [OF assms(2) a], rule_tac that [OF a]) simp_all
qed

text \<open>
  C7, witness: three new names of the villain category, whose pool has three voices; a
  second resolution of the first name hits the cache; the first resolution, whose
  analysis is the dictionary of the fallback, advances the index of the category.
\<close>

theorem round_robin_coverage_witness:
  "length (available_voices ''villain'') \<le>
     length (new_in_category failing_world ''villain'' [''Shadow'', ''Darkon'', ''Grimm'']
               init_teller) \<and>
   distinct (take (length (available_voices ''villain''))
     (map voice_id (new_in_category failing_world ''villain'' [''Shadow'', ''Darkon'', ''Grimm'']
        init_teller))) \<and>
   set (take (length (available_voices ''villain''))
     (map voice_id (new_in_category failing_world ''villain'' [''Shadow'', ''Darkon'', ''Grimm'']
        init_teller))) = set (available_voices ''villain'') \<and>
   map_character_name_to_voice failing_world ''Shadow''
       (snd (map_character_name_to_voice failing_world ''Shadow'' init_teller)) =
     (fst (map_character_name_to_voice failing_world ''Shadow'' init_teller),
      snd (map_character_name_to_voice failing_world ''Shadow'' init_teller)) \<and>
   is_object (fst (analyze_character_name_with_ai failing_world ''Shadow'' init_teller)) \<and>
   selection_index (snd (map_character_name_to_voice failing_world ''Shadow'' init_teller)) =
     [''villain'' \<mapsto> 1]"
proof -
  let ?st1 = "snd (map_character_name_to_voice failing_world ''Shadow'' init_teller)"
  let ?st2 = "snd (map_character_name_to_voice failing_world ''Darkon'' ?st1)"
  have a0: "name_analysis_cache init_teller \<in> {None, Some Map.empty}"
    and e0: "name_voice_cache init_teller = Map.empty"
    and s0: "selection_index init_teller = Map.empty"
    by (simp_all add: init_teller_def selection_index_def)
  have m0: "name_voice_cache init_teller ''Shadow'' = None" by (simp add: e0)
  obtain d0 d1 d2 where d: "fallback_name_analysis ''Shadow'' = JObj d0"
    "fallback_name_analysis ''Darkon'' = JObj d1" "fallback_name_analysis ''Grimm'' = JObj d2"
    and v: "voice_category_of d0 = ''villain''" "voice_category_of d1 = ''villain''"
      "voice_category_of d2 = ''villain''"
    using fallback_villains by blast
  obtain c0 where c0: "fst (analyze_character_name_with_ai failing_world ''Shadow''
      init_teller) = JObj d0"
    and k0: "fst (map_character_name_to_voice failing_world ''Shadow'' init_teller) = Inr c0"
    and e1: "name_voice_cache ?st1 = [''Shadow'' \<mapsto> c0]"
    and a1: "name_analysis_cache ?st1 \<in> {None, Some Map.empty}"
    by (rule failing_world_step [OF a0 m0 d(1)]) (simp add: e0)
  have m1: "name_voice_cache ?st1 ''Darkon'' = None" by (simp add: e1)
  obtain c1 where c1: "fst (analyze_character_name_with_ai failing_world ''Darkon''
      ?st1) = JObj d1"
    and k1: "fst (map_character_name_to_voice failing_world ''Darkon'' ?st1) = Inr c1"
    and e2: "name_voice_cache ?st2 = [''Shadow'' \<mapsto> c0, ''Darkon'' \<mapsto> c1]"
    and a2: "name_analysis_cache ?st2 \<in> {None, Some Map.empty}"
    by (rule failing_world_step [OF a1 m1 d(2)]) (simp add: e1)
  have m2: "name_voice_cache ?st2 ''Grimm'' = None" by (simp add: e2)
  obtain c2 where c2: "fst (analyze_character_name_with_ai failing_world ''Grimm''
      ?st2) = JObj d2"
    and k2: "fst (map_character_name_to_voice failing_world ''Grimm'' ?st2) = Inr c2"
    by (rule failing_world_step [OF a2 m2 d(3)])
  have len: "length (new_in_category failing_world ''villain'' [''Shadow'', ''Darkon'', ''Grimm'']
      init_teller) = 3"
    by (simp add: Let_def m0 m1 m2 c0 c1 c2 k0 k1 k2 v)
  have pool: "length (available_voices ''villain'') = 3"
    by (simp add: available_voices_def dict_get_def english_voices_def)
  have hit: "name_voice_cache ?st1 ''Shadow'' = Some c0"
    by (simp add: e1)
  show ?thesis
    using round_robin_coverage [of "''villain''" failing_world
        "[''Shadow'', ''Darkon'', ''Grimm'']" init_teller ?st1 "''Shadow''" c0
        init_teller "''Shadow''"]
    by (simp add: len pool hit m0 c0 k0 v s0 dict_get_def is_object_def
          del: new_in_category.simps)
qed

section \<open>Segmentation of a story\<close>

lemma split_on_nonempty: "split_on sep s \<noteq> []"
  by (induction s) (simp_all add: Let_def)

lemma hd_split_on: "hd (split_on sep s) = takeWhile (\<lambda>c. c \<noteq> sep) s"
  by (induction s) (simp_all add: Let_def)

lemma example_lines:
  "filter (\<lambda>line. line \<noteq> []) (map strip (split_on CHR 0x0A example_story)) =
     [''Narrator: The sun rose.'', ''Kael: I must go!'', ''just text'']"
  by (simp add: strip_def isspace_def whitespace_def example_story_def Let_def)

lemma example_spec:
  "spec_segments example_story =
     [(''Narrator'', ''The sun rose.''), (''Kael'', ''I must go!''), (''Narrator'', ''just text'')]"
  by (simp add: spec_segments_def spec_line_def strip_def isspace_def whitespace_def
        example_story_def Let_def)

lemma string_reply_call:
  "fst (make_api_call string_reply_world mt st) =
     Inr \<lparr>choices = Some [\<lparr>message = Some (map_of
                   [(''content'', [CHR 0x22] @ field_names_text @ [CHR 0x22])]),
                 finish_reason = Some ''stop''\<rparr>],
          usage = None\<rparr>"
  by (simp add: make_api_call_def Let_def request_with_retry_def post_chat_def log_event_def
      checked_json_def string_reply_world_def quiet_world_def split: option.split)

lemma field_names_pass:
  "strip (CHR 0x22 # field_names_text @ [CHR 0x22]) =
     CHR 0x22 # field_names_text @ [CHR 0x22]"
  "fill_required required_fields (JStr field_names_text) = Inr (JStr field_names_text)"
  by (simp_all add: strip_def isspace_def whitespace_def field_names_text_def
        required_fields_def contains_def find_def)

lemma string_reply_analyze:
  assumes "analysis_cache st (lower n) = None"
  shows "fst (analyze_character_name_with_ai string_reply_world n st) = JStr field_names_text"
proof -
  define st1 where "st1 = st\<lparr>name_analysis_cache := Some (analysis_cache st)\<rparr>"
  have c: "analysis_cache st1 (lower n) = None"
    using assms by (simp add: st1_def analysis_cache_def)
  obtain res st2 where r: "make_api_call string_reply_world ''name_analysis'' st1 = (res, st2)"
    by (cases "make_api_call string_reply_world ''name_analysis'' st1")
  have l: "json_loads string_reply_world (CHR 0x22 # field_names_text @ [CHR 0x22]) =
      Some (JStr field_names_text)"
    by (simp add: string_reply_world_def)
  have "res = Inr \<lparr>choices = Some [\<lparr>message = Some (map_of
                   [(''content'', [CHR 0x22] @ field_names_text @ [CHR 0x22])]),
                 finish_reason = Some ''stop''\<rparr>],
          usage = None\<rparr>"
    using string_reply_call [of "''name_analysis''" st1] r by simp
  then show ?thesis
    using r c unfolding analyze_character_name_with_ai_def Let_def st1_def [symmetric]
    by (simp add: field_names_pass l)
qed

text \<open>
  C4: the parser on the example story, on a new orchestrator, with a classifier that
  answers the request for the analysis of a name with the JSON string
  \<open>"gender age_group personality_trait voice_type confidence"\<close>. The string passes the
  loop over the required fields, is cached and returned as the analysis, and the parser
  raises \<open>AttributeError\<close> on the first line instead of returning three segments.
\<close>

theorem parse_story_raises:
  "json_loads string_reply_world ([CHR 0x22] @ field_names_text @ [CHR 0x22]) =
     Some (JStr field_names_text) \<and>
   fst (analyze_character_name_with_ai string_reply_world ''Narrator'' init_teller) =
     JStr field_names_text \<and>
   fst (map_character_name_to_voice string_reply_world ''Narrator'' init_teller) =
     Inl AttributeError \<and>
   fst (parse_story_into_segments string_reply_world example_story init_teller) =
     Inl AttributeError"
proof -
  have l: "json_loads string_reply_world ([CHR 0x22] @ field_names_text @ [CHR 0x22]) =
      Some (JStr field_names_text)"
    by (simp add: string_reply_world_def)
  have c: "analysis_cache init_teller (lower ''Narrator'') = None"
    by (simp add: analysis_cache_def init_teller_def)
  have v: "name_voice_cache init_teller ''Narrator'' = None"
    by (simp add: init_teller_def)
  have a: "fst (analyze_character_name_with_ai string_reply_world ''Narrator'' init_teller) =
      JStr field_names_text"
    by (rule string_reply_analyze [OF c])
  then have o: "\<not> is_object
      (fst (analyze_character_name_with_ai string_reply_world ''Narrator'' init_teller))"
    by (simp add: is_object_def)
  note m = map_miss_error [OF v o]
  have n: "strip (hd (split_on CHR ''('' (strip ''Narrator''))) = ''Narrator''"
    by (simp add: strip_def isspace_def whitespace_def Let_def)
  have s: "fst (segment_of_line string_reply_world ''Narrator: The sun rose.'' init_teller) =
      Inl AttributeError"
    by (simp add: segment_of_line_def split_once_def Let_def n m)
  have sp: "split_on CHR 0x0A example_story =
      [''Narrator: The sun rose.'', ''Kael: I must go!'', ''just text'']"
    by (simp add: example_story_def Let_def)
  have st: "strip ''Narrator: The sun rose.'' = ''Narrator: The sun rose.''"
    by (simp add: strip_def isspace_def whitespace_def)
  have p: "fst (parse_lines string_reply_world (split_on CHR 0x0A example_story) init_teller) =
      Inl AttributeError"
    using s
    by (cases "segment_of_line string_reply_world ''Narrator: The sun rose.'' init_teller")
       (simp add: sp st Let_def del: parse_lines.simps(2)
          add: parse_lines.simps(2) [of _ "''Narrator: The sun rose.''"])
  have "fst (parse_story_into_segments string_reply_world example_story init_teller) =
      Inl AttributeError"
    using p
    by (cases "parse_lines string_reply_world (split_on CHR 0x0A example_story) init_teller")
       (simp add: parse_story_into_segments_def)
  with l a m show ?thesis by simp
qed

subsection \<open>The parser when every analysis is a dictionary\<close>

lemma fill_required_object:
  "is_object a \<Longrightarrow> fill_required fs a = Inr b \<Longrightarrow> is_object b"
proof (induction fs arbitrary: a)
  case Nil
  then show ?case by simp
next
  case (Cons f fs)
  from Cons.prems(1) obtain d where d: "a = JObj d"
    by (cases a) (simp_all add: is_object_def)
  show ?case
  proof (cases "f \<in> fst ` set d")
    case True
    with Cons.prems d show ?thesis by (simp add: Cons.IH)
  next
    case False
    have "is_object (JObj (d @ [(f, if f \<noteq> ''confidence'' then JStr ''unknown''
        else JNum 0.5)]))"
      by (simp add: is_object_def)
    from Cons.IH [OF this] Cons.prems(2) d False show ?thesis by simp
  qed
qed

lemma analyze_object:
  assumes "answers_objects w" and "analysis_objects st"
  shows "is_object (fst (analyze_character_name_with_ai w n st))"
    and "analysis_objects (snd (analyze_character_name_with_ai w n st))"
proof -
  have "is_object (fst (analyze_character_name_with_ai w n st)) \<and>
        analysis_objects (snd (analyze_character_name_with_ai w n st))"
  proof (cases rule: analyze_cases [of st n w])
    case (cached a)
    with assms(2) show ?thesis by (auto simp add: analysis_objects_def analysis_cache_def)
  next
    case fallback
    with assms(2) show ?thesis
      by (auto simp add: analysis_objects_def analysis_cache_def fallback_is_object)
  next
    case (fresh a s parsed)
    have "is_object parsed \<or> fill_required required_fields parsed = Inl TypeError"
      using assms(1) fresh(4) unfolding answers_objects_def by blast
    then have "is_object parsed" using fresh(5) by simp
    then have "is_object a" using fresh(5) by (rule fill_required_object)
    with assms(2) fresh(2,3) show ?thesis
      by (auto simp add: analysis_objects_def analysis_cache_def)
  qed
  then show "is_object (fst (analyze_character_name_with_ai w n st))"
    and "analysis_objects (snd (analyze_character_name_with_ai w n st))"
    by simp_all
qed

lemma map_object:
  assumes "cache_named st" and "answers_objects w" and "analysis_objects st"
  obtains c where "fst (map_character_name_to_voice w n st) = Inr c" and "name c = n"
    and "cache_named (snd (map_character_name_to_voice w n st))"
    and "analysis_objects (snd (map_character_name_to_voice w n st))"
    and "characters (snd (map_character_name_to_voice w n st)) = characters st"
proof (cases "name_voice_cache st n")
  case (Some c)
  show thesis
    using assms Some by (rule_tac that [of c]) (auto simp add: map_hit cache_named_def)
next
  case None
  from analyze_object(1) [OF assms(2,3), of n] obtain d where
    d: "fst (analyze_character_name_with_ai w n st) = JObj d"
    by (cases "fst (analyze_character_name_with_ai w n st)") (simp_all add: is_object_def)
  obtain c where c: "fst (map_character_name_to_voice w n st) = Inr c" "name c = n"
    "name_voice_cache (snd (map_character_name_to_voice w n st)) =
           (name_voice_cache st)(n \<mapsto> c)"
    "characters (snd (map_character_name_to_voice w n st)) = characters st"
    "name_analysis_cache (snd (map_character_name_to_voice w n st)) =
           name_analysis_cache (snd (analyze_character_name_with_ai w n st))"
    by (rule map_miss [OF None d])
  have "analysis_objects (snd (map_character_name_to_voice w n st))"
    using analyze_object(2) [OF assms(2,3), of n] c(5)
    by (simp add: analysis_objects_def analysis_cache_def)
  moreover have "cache_named (snd (map_character_name_to_voice w n st))"
    using assms(1) c(2,3) by (simp add: cache_named_def)
  ultimately show thesis using c by (rule_tac that [of c])
qed

lemma segment_of_line_spec:
  assumes "cache_named st" and "answers_objects w" and "analysis_objects st"
    and "characters st ''narrator'' = Some nar" and "name nar = ''Narrator''"
  shows "\<exists>seg st'. segment_of_line w line st = (Inr seg, st') \<and>
       speaker_and_text seg = (Some (fst (spec_line line)), snd (spec_line line)) \<and>
       audio_file seg = None \<and>
       (CHR '':'' \<notin> set line \<longrightarrow> character seg = Some nar) \<and>
       cache_named st' \<and> analysis_objects st' \<and> characters st' = characters st"
proof (cases "CHR '':'' \<in> set line")
  case False
  with assms show ?thesis
    by (simp add: segment_of_line_def narrator_segment_def speaker_and_text_def spec_line_def)
next
  case True
  define n where "n = strip (hd (split_on CHR ''('' (strip (takeWhile (\<lambda>c. c \<noteq> CHR '':'') line))))"
  obtain r st' where r: "map_character_name_to_voice w n st = (r, st')"
    by (cases "map_character_name_to_voice w n st")
  obtain c where "r = Inr c" "name c = n" "cache_named st'" "analysis_objects st'"
    "characters st' = characters st"
    using r by (rule_tac map_object [OF assms(1-3), of n]) simp
  then show ?thesis
    using True r
    by (simp add: segment_of_line_def split_once_def Let_def n_def [symmetric]
          speaker_and_text_def spec_line_def)
       (simp add: n_def hd_split_on)
qed

lemma parse_lines_spec:
  assumes "cache_named st" and "answers_objects w" and "analysis_objects st"
    and "characters st ''narrator'' = Some nar" and "name nar = ''Narrator''"
  shows "\<exists>segs st'. parse_lines w ls st = (Inr segs, st') \<and>
       map speaker_and_text segs =
         map (\<lambda>l. (Some (fst (spec_line l)), snd (spec_line l)))
           (filter (\<lambda>line. line \<noteq> []) (map strip ls)) \<and>
       list_all (\<lambda>seg. audio_file seg = None) segs"
  using assms
proof (induction ls arbitrary: st)
  case Nil
  then show ?case by simp
next
  case (Cons raw ls)
  show ?case
  proof (cases "strip raw = []")
    case True
    with Cons.IH [OF Cons.prems] show ?thesis by simp
  next
    case False
    from segment_of_line_spec [OF Cons.prems, of "strip raw"]
    obtain seg st1 where s: "segment_of_line w (strip raw) st = (Inr seg, st1)"
      "speaker_and_text seg = (Some (fst (spec_line (strip raw))), snd (spec_line (strip raw)))"
      "audio_file seg = None"
      "cache_named st1" "analysis_objects st1" "characters st1 = characters st"
      by blast
    from Cons.IH [of st1] s Cons.prems
    obtain segs st2 where p: "parse_lines w ls st1 = (Inr segs, st2)"
      "map speaker_and_text segs =
         map (\<lambda>l. (Some (fst (spec_line l)), snd (spec_line l)))
           (filter (\<lambda>line. line \<noteq> []) (map strip ls))"
      "list_all (\<lambda>seg. audio_file seg = None) segs"
      by auto
    show ?thesis using False s p by (simp add: Let_def)
  qed
qed

text \<open>
  With a classifier whose parsed answers are dictionaries (or are refused by the loop over
  the required fields), on an orchestrator whose default narrator is named \<open>Narrator\<close>
  and whose caches are as the code fills them, the example story yields three segments,
  in this order: Narrator with \<open>The sun rose.\<close>, Kael with \<open>I must go!\<close>, and Narrator
  with \<open>just text\<close>; and for every story the speakers and texts of the segments are those
  of the lines that are not blank, in the order of the lines, and no segment has an audio
  file yet.
\<close>

lemma parse_story_of_objects:
  assumes "cache_named st" and "answers_objects w" and "analysis_objects st"
    and "characters st ''narrator'' = Some nar" and "name nar = ''Narrator''"
  shows "\<exists>segs. fst (parse_story_into_segments w story st) = Inr segs \<and>
       map speaker_and_text segs =
         map (\<lambda>(speaker, content). (Some speaker, content)) (spec_segments story) \<and>
       list_all (\<lambda>seg. audio_file seg = None) segs"
proof -
  from parse_lines_spec [OF assms, of "split_on CHR 0x0A story"]
  obtain segs st' where p: "parse_lines w (split_on CHR 0x0A story) st = (Inr segs, st')"
    "map speaker_and_text segs =
       map (\<lambda>l. (Some (fst (spec_line l)), snd (spec_line l)))
         (filter (\<lambda>line. line \<noteq> []) (map strip (split_on CHR 0x0A story)))"
    "list_all (\<lambda>seg. audio_file seg = None) segs"
    by blast
  then show ?thesis
    by (simp add: parse_story_into_segments_def spec_segments_def split_beta comp_def)
qed

lemma failing_world_objects:
  "answers_objects failing_world" "analysis_objects init_teller" "cache_named init_teller"
  "characters init_teller ''narrator'' = Some (the (characters init_teller ''narrator''))"
  "name (the (characters init_teller ''narrator'')) = ''Narrator''"
  by (simp_all add: answers_objects_def analysis_objects_def analysis_cache_def cache_named_def
        failing_world_def quiet_world_def init_teller_def default_characters_def)

lemma parse_example_of_objects:
  "map_sum id (map speaker_and_text)
       (fst (parse_story_into_segments failing_world example_story init_teller)) =
     Inr [(Some ''Narrator'', ''The sun rose.''), (Some ''Kael'', ''I must go!''),
          (Some ''Narrator'', ''just text'')]"
  using parse_story_of_objects [OF failing_world_objects(3,1,2,4,5), of example_story]
  by (auto simp add: example_spec)

section \<open>Segments and their speakers\<close>

lemma segment_of_line_character:
  "segment_of_line w line st = (Inr seg, st') \<Longrightarrow> character seg \<noteq> None"
  by (auto simp add: segment_of_line_def narrator_segment_def Let_def split_beta
        split: if_splits option.splits sum.splits)

lemma parse_lines_characters:
  "parse_lines w ls st = (Inr segs, st') \<Longrightarrow> list_all (\<lambda>seg. character seg \<noteq> None) segs"
proof (induction ls arbitrary: st segs st')
  case Nil
  then show ?case by auto
next
  case (Cons raw ls)
  show ?case
  proof (cases "strip raw = []")
    case True
    with Cons show ?thesis by simp
  next
    case False
    obtain r1 st1 where s: "segment_of_line w (strip raw) st = (r1, st1)"
      by (cases "segment_of_line w (strip raw) st")
    obtain r2 st2 where p: "parse_lines w ls st1 = (r2, st2)"
      by (cases "parse_lines w ls st1")
    from Cons.prems False s p obtain seg rest where
      e: "r1 = Inr seg" "r2 = Inr rest" "segs = seg # rest"
      by (auto simp add: Let_def split: sum.splits)
    from Cons.IH [of st1 rest st2] p e have "list_all (\<lambda>seg. character seg \<noteq> None) rest" by simp
    moreover from segment_of_line_character s e have "character seg \<noteq> None" by blast
    ultimately show ?thesis using e by simp
  qed
qed

lemma parse_story_result:
  "fst (parse_story_into_segments w story st) = Inr segs \<Longrightarrow>
   story_segments (snd (parse_story_into_segments w story st)) = segs \<and>
   (\<exists>st'. parse_lines w (split_on CHR 0x0A story) st = (Inr segs, st'))"
  by (cases "parse_lines w (split_on CHR 0x0A story) st")
     (auto simp add: parse_story_into_segments_def split: sum.splits)

lemma audio_with_character:
  assumes "character seg \<noteq> None"
  shows "fst (generate_audio_for_segment w ts seg dir st) \<noteq> Inl AttributeError"
    and "path_exists w dir \<or> can_makedirs w dir \<Longrightarrow>
      \<exists>audio seg'. fst (generate_audio_for_segment w ts seg dir st) = Inr (audio, seg') \<and>
        character seg' = character seg"
    and "\<not> (path_exists w dir \<or> can_makedirs w dir) \<Longrightarrow>
      fst (generate_audio_for_segment w ts seg dir st) = Inl OSError"
  using assms
  by (cases "request_with_retry ''tts'' (post_tts w) st";
      auto simp add: generate_audio_for_segment_def Let_def split: option.split sum.split)+

lemma audio_loop_returns:
  assumes "path_exists w dir \<or> can_makedirs w dir"
  shows "list_all (\<lambda>seg. character seg \<noteq> None) segs \<Longrightarrow>
   \<exists>files. fst (audio_loop w clock dir i segs st) = Inr files"
proof (induction segs arbitrary: i st)
  case Nil
  then show ?case by simp
next
  case (Cons seg segs)
  then have c: "character seg \<noteq> None" and r: "list_all (\<lambda>seg. character seg \<noteq> None) segs"
    by simp_all
  obtain r1 st1 where g: "generate_audio_for_segment w (clock i) seg dir st = (r1, st1)"
    by (cases "generate_audio_for_segment w (clock i) seg dir st")
  with audio_with_character(2) [OF c assms, of "clock i" st]
  obtain audio seg' where a: "r1 = Inr (audio, seg')" by auto
  from Cons.IH [OF r, of "Suc i" "st1\<lparr>story_segments := (story_segments st1)[i := seg']\<rparr>"]
  obtain files where
    "fst (audio_loop w clock dir (Suc i) segs
            (st1\<lparr>story_segments := (story_segments st1)[i := seg']\<rparr>)) = Inr files"
    by blast
  then show ?case using g a
    by (cases "audio_loop w clock dir (Suc i) segs
            (st1\<lparr>story_segments := (story_segments st1)[i := seg']\<rparr>)") simp
qed

lemma audio_loop_no_directory:
  assumes "\<not> (path_exists w dir \<or> can_makedirs w dir)"
    and "list_all (\<lambda>seg. character seg \<noteq> None) segs"
  shows "fst (audio_loop w clock dir i segs st) = (if segs = [] then Inr [] else Inl OSError)"
proof (cases segs)
  case Nil
  then show ?thesis by simp
next
  case (Cons seg rest)
  then have c: "character seg \<noteq> None" using assms(2) by simp
  from audio_with_character(3) [OF c assms(1), of "clock i" st] show ?thesis
    by (cases "generate_audio_for_segment w (clock i) seg dir st") (simp add: Cons)
qed

text \<open>
  C10: every segment that \<open>parse_story_into_segments\<close> returns has a character, so
  \<open>generate_audio_for_segment\<close> never raises \<open>AttributeError\<close> on one of them, in
  whatever state and world, and neither does \<open>generate_full_story_audio\<close> on the
  parsed story, which returns its list of files when the output directory exists or can
  be created.
\<close>

theorem segments_have_speakers:
  assumes "fst (parse_story_into_segments w story st) = Inr segs"
  shows "list_all (\<lambda>seg. character seg \<noteq> None) segs \<and>
     list_all (\<lambda>seg. fst (generate_audio_for_segment w' ts seg dir st') \<noteq> Inl AttributeError) segs \<and>
     story_segments (snd (parse_story_into_segments w story st)) = segs \<and>
     fst (generate_full_story_audio w' clock dir
            (snd (parse_story_into_segments w story st))) \<noteq> Inl AttributeError \<and>
     (path_exists w' dir \<or> can_makedirs w' dir \<longrightarrow>
        (\<exists>files. fst (generate_full_story_audio w' clock dir
                     (snd (parse_story_into_segments w story st))) = Inr files))"
proof -
  from parse_story_result [OF assms] obtain stp where
    seg: "story_segments (snd (parse_story_into_segments w story st)) = segs"
    and p: "parse_lines w (split_on CHR 0x0A story) st = (Inr segs, stp)"
    by blast
  from parse_lines_characters [OF p]
  have ch: "list_all (\<lambda>seg. character seg \<noteq> None) segs" .
  have "fst (generate_audio_for_segment w' ts seg dir st') \<noteq> Inl AttributeError"
    if "character seg \<noteq> None" for seg
    using that by (rule audio_with_character(1))
  with ch have au: "list_all (\<lambda>seg. fst (generate_audio_for_segment w' ts seg dir st') \<noteq>
      Inl AttributeError) segs"
    by (simp add: list_all_iff)
  have ok: "\<exists>files. fst (generate_full_story_audio w' clock dir
                     (snd (parse_story_into_segments w story st))) = Inr files"
    if "path_exists w' dir \<or> can_makedirs w' dir"
    using audio_loop_returns [OF that ch] by (simp add: generate_full_story_audio_def seg)
  have na: "fst (generate_full_story_audio w' clock dir
            (snd (parse_story_into_segments w story st))) \<noteq> Inl AttributeError"
  proof (cases "path_exists w' dir \<or> can_makedirs w' dir")
    case True
    from ok [OF True] show ?thesis by auto
  next
    case False
    from audio_loop_no_directory [OF False ch] show ?thesis
      by (simp add: generate_full_story_audio_def seg)
  qed
  from ch au seg na ok show ?thesis by blast
qed

text \<open>C10, witness: the three segments of the example story on a new orchestrator.\<close>

theorem segments_have_speakers_witness:
  "\<exists>segs. fst (parse_story_into_segments failing_world example_story init_teller) = Inr segs \<and>
     length segs = 3 \<and>
     list_all (\<lambda>seg. character seg \<noteq> None) segs \<and>
     list_all (\<lambda>seg. fst (generate_audio_for_segment failing_world 0 seg ''audio_output''
                          init_teller) \<noteq> Inl AttributeError) segs \<and>
     fst (generate_full_story_audio failing_world (\<lambda>i. 0) ''audio_output''
            (snd (parse_story_into_segments failing_world example_story init_teller))) \<noteq>
       Inl AttributeError \<and>
     path_exists failing_world ''audio_output'' \<and>
     (\<exists>files. fst (generate_full_story_audio failing_world (\<lambda>i. 0) ''audio_output''
                     (snd (parse_story_into_segments failing_world example_story init_teller))) =
               Inr files)"
proof -
  from parse_story_of_objects [OF failing_world_objects(3,1,2,4,5), of example_story]
  obtain segs where
    r: "fst (parse_story_into_segments failing_world example_story init_teller) = Inr segs"
    and m: "map speaker_and_text segs =
         map (\<lambda>(speaker, content). (Some speaker, content)) (spec_segments example_story)"
    by blast
  have "length (map speaker_and_text segs) = length (spec_segments example_story)"
    using m by simp
  then have l: "length segs = 3" by (simp add: example_spec)
  have d: "path_exists failing_world ''audio_output''"
    by (simp add: failing_world_def quiet_world_def)
  from segments_have_speakers [OF r, of failing_world 0 "''audio_output''" init_teller "\<lambda>i. 0"]
    r l d show ?thesis by simp
qed

end
